theory Spec2Isabelle
  imports Main "HOL-Library.AList" "HOL-Library.Code_Target_Nat"
begin

section \<open>Path names (package path/filepath, Unix flavour)\<close>

text \<open>
  A path string is kept in parsed form: a flag saying whether it starts with a
  separator, and the list of its elements as \<open>strings.Split(s, "/")\<close> gives them.
  The empty string is \<open>(False, [[]])\<close>; a cleaned path has no empty element,
  so the two never collide.
\<close>

type_synonym path = "bool \<times> string list"

fun split_sep :: "string \<Rightarrow> string list" where
  "split_sep [] = [[]]"
| "split_sep (c # cs) =
     (if c = CHR ''/'' then [] # split_sep cs
      else (case split_sep cs of [] \<Rightarrow> [[c]] | x # xs \<Rightarrow> (c # x) # xs))"

definition of_string :: "string \<Rightarrow> path" where
  "of_string s = (case s of [] \<Rightarrow> (False, [[]]) | c # _ \<Rightarrow> (c = CHR ''/'', split_sep s))"

definition empty_path :: path where
  "empty_path = (False, [[]])"

fun join_sep :: "string list \<Rightarrow> string" where
  "join_sep [] = []"
| "join_sep [x] = x"
| "join_sep (x # y # ys) = x @ CHR ''/'' # join_sep (y # ys)"

definition render :: "path \<Rightarrow> string" where
  "render p =
     (if p = empty_path then []
      else if snd p = [] then (if fst p then ''/'' else ''.'')
      else (if fst p then ''/'' else []) @ join_sep (snd p))"

text \<open>
  \<open>filepath.Clean\<close>: drop empty and \<open>.\<close> elements, let \<open>..\<close> cancel the element
  before it, drop \<open>..\<close> at the root, keep leading \<open>..\<close> of a relative path.
\<close>

definition clean_step :: "bool \<Rightarrow> string list \<Rightarrow> string \<Rightarrow> string list" where
  "clean_step rooted st c =
     (if c = [] \<or> c = ''.'' then st
      else if c = ''..'' then
        (if st \<noteq> [] \<and> last st \<noteq> ''..'' then butlast st
         else if rooted then st
         else st @ [c])
      else st @ [c])"

definition Clean :: "path \<Rightarrow> path" where
  "Clean p = (fst p, foldl (clean_step (fst p)) [] (snd p))"

text \<open>
  \<open>filepath.Join\<close>: leading empty strings are skipped, the rest is joined with
  separators and cleaned; with nothing but empty strings the result is the empty string.
\<close>

definition Join :: "path list \<Rightarrow> path" where
  "Join ps =
     (case dropWhile (\<lambda>p. p = empty_path) ps of
        [] \<Rightarrow> empty_path
      | q # qs \<Rightarrow> Clean (fst q, concat (map snd (q # qs))))"

text \<open>\<open>filepath.Dir\<close>: all but the last element, cleaned.\<close>

definition Dir :: "path \<Rightarrow> path" where
  "Dir p = Clean (fst p, butlast (snd p))"

section \<open>The process environment\<close>

datatype errno = ENOENT | EEXIST | ENOTDIR | EISDIR | ELOOP | ENOTEMPTY | EINVAL

text \<open>
  Go errors, by how they are built: \<open>errors.New\<close>, \<open>fmt.Errorf\<close> (format string,
  the formatted arguments, the error wrapped by \<open>%w\<close>), the \<open>*os.PathError\<close> and
  \<open>*os.LinkError\<close> of the os package, and errors of other packages by their text.
\<close>

datatype arg = Str string | Num nat

datatype error =
    ErrorsNew string
  | Errorf string "arg list" "error option"
  | PathError string path errno
  | LinkError string path path errno
  | LibError string

datatype http_result =
    NewRequestError error
  | DoError error
  | Response nat string string "error option"

text \<open>
  What a call reads from outside the program: the environment variable, the
  result of \<open>os.UserHomeDir\<close> and of \<open>os.Getwd\<close> (\<open>None\<close> when they fail;
  the name \<open>os.Getwd\<close> gives is absolute, so it is given by its elements, and
  it may lead through symbolic links), the physical place \<open>cwd\<close> of the
  working directory, from which the kernel resolves relative paths, the
  platform, the formatted time of \<open>time.Now\<close>, what a GET of a URL gives, and
  the digest function (hex of SHA-256), which is a parameter of the model.
  A response carries the status, the content type, the bytes of the body that
  arrive and the error that ends the body early, if any.
\<close>

type_synonym key = "string list"

record world =
  XDG_CONFIG_HOME :: string
  UserHomeDir :: "string option"
  Getwd :: "string list option"
  cwd :: key
  GOOS :: string
  GOARCH :: string
  Now :: string
  http_get :: "string \<Rightarrow> http_result"
  sha256_hex :: "string \<Rightarrow> string"

definition Abs :: "world \<Rightarrow> path \<Rightarrow> path \<times> error option" where
  "Abs w p =
     (if fst p then (Clean p, None)
      else (case Getwd w of
              None \<Rightarrow> (empty_path, Some (LibError ''getwd''))
            | Some wd \<Rightarrow> (Join [(True, wd), p], None)))"

section \<open>The file system (package os)\<close>

text \<open>
  A file system is an association list from the physical place of a node (the
  list of names from the root, through directories only) to the node; the root
  is a directory that always exists. A path is resolved as the kernel does it:
  from the root or from the working directory of the process, element by
  element, \<open>..\<close> going to the parent of the directory reached, a symbolic link
  in a directory position followed, a link in the last position followed when
  the call follows links, at most \<open>MAXSYMLINKS\<close> links in all. Permissions,
  quotas and other failures of the device are not modelled: an operation fails
  only for the reasons the tree itself gives.
\<close>

datatype node = DirNode | FileNode string | LinkNode path

type_synonym filesystem = "(key \<times> node) list"

text \<open>
  What a path resolves to: a node at a place, or a name that is free in a
  directory that exists (the place where a call may create something).
\<close>

datatype found = Found key node | Missing key

definition MAXSYMLINKS :: nat where
  "MAXSYMLINKS = 40"

fun namei :: "nat \<Rightarrow> filesystem \<Rightarrow> bool \<Rightarrow> key \<Rightarrow> string list \<Rightarrow> errno + found" where
  "namei fuel f follow cur [] = Inr (Found cur DirNode)"
| "namei fuel f follow cur (c # cs) =
     (if c = [] \<or> c = ''.'' then namei fuel f follow cur cs
      else if c = ''..'' then namei fuel f follow (butlast cur) cs
      else (case map_of f (cur @ [c]) of
              None \<Rightarrow> (if cs = [] then Inr (Missing (cur @ [c])) else Inl ENOENT)
            | Some DirNode \<Rightarrow> namei fuel f follow (cur @ [c]) cs
            | Some (FileNode b) \<Rightarrow>
                (if cs = [] then Inr (Found (cur @ [c]) (FileNode b)) else Inl ENOTDIR)
            | Some (LinkNode t) \<Rightarrow>
                (if cs = [] \<and> \<not> follow then Inr (Found (cur @ [c]) (LinkNode t))
                 else (case fuel of
                         0 \<Rightarrow> Inl ELOOP
                       | Suc n \<Rightarrow> namei n f follow (if fst t then [] else cur) (snd t @ cs)))))"

text \<open>
  The empty string names nothing. A relative path starts at the working
  directory of the process, which must still exist.
\<close>

definition resolve :: "world \<Rightarrow> filesystem \<Rightarrow> bool \<Rightarrow> path \<Rightarrow> errno + found" where
  "resolve w f follow p =
     (if p = empty_path then Inl ENOENT
      else if fst p then namei MAXSYMLINKS f follow [] (snd p)
      else if cwd w = [] \<or> map_of f (cwd w) = Some DirNode
        then namei MAXSYMLINKS f follow (cwd w) (snd p)
      else Inl ENOENT)"

definition os_Stat :: "world \<Rightarrow> filesystem \<Rightarrow> path \<Rightarrow> error option" where
  "os_Stat w f p =
     (case resolve w f True p of
        Inl e \<Rightarrow> Some (PathError ''stat'' p e)
      | Inr (Missing _) \<Rightarrow> Some (PathError ''stat'' p ENOENT)
      | Inr (Found _ _) \<Rightarrow> None)"

definition os_IsNotExist :: "error option \<Rightarrow> bool" where
  "os_IsNotExist err =
     (case err of
        Some (PathError _ _ e) \<Rightarrow> e = ENOENT
      | Some (LinkError _ _ _ e) \<Rightarrow> e = ENOENT
      | _ \<Rightarrow> False)"

text \<open>\<open>os.Mkdir\<close> makes one directory; it fails when the name is taken.\<close>

definition os_Mkdir :: "world \<Rightarrow> filesystem \<Rightarrow> path \<Rightarrow> error option \<times> filesystem" where
  "os_Mkdir w f p =
     (case resolve w f False p of
        Inl e \<Rightarrow> (Some (PathError ''mkdir'' p e), f)
      | Inr (Found _ _) \<Rightarrow> (Some (PathError ''mkdir'' p EEXIST), f)
      | Inr (Missing k) \<Rightarrow> (None, AList.update k DirNode f))"

text \<open>
  \<open>os.MkdirAll\<close>, as the library does it: nothing to do when \<open>os.Stat\<close> finds
  a directory (links followed), an error when it finds something else;
  otherwise the parent is made first, if the path has one, then \<open>os.Mkdir\<close>
  makes the directory itself, and an error of that last step is returned only
  when \<open>os.Lstat\<close> still finds no directory there. \<open>mkdir_all\<close> takes the
  elements of the path in reverse, so that the parent is the tail.
\<close>

definition mkdir_checked :: "world \<Rightarrow> filesystem \<Rightarrow> path \<Rightarrow> error option \<times> filesystem" where
  "mkdir_checked w f p =
     (case os_Mkdir w f p of
        (None, f') \<Rightarrow> (None, f')
      | (Some e, f') \<Rightarrow>
          (case resolve w f' False p of
             Inr (Found _ DirNode) \<Rightarrow> (None, f')
           | _ \<Rightarrow> (Some e, f')))"

fun mkdir_all :: "world \<Rightarrow> filesystem \<Rightarrow> bool \<Rightarrow> string list \<Rightarrow> error option \<times> filesystem" where
  "mkdir_all w f rooted [] =
     (case resolve w f True (rooted, []) of
        Inr (Found _ DirNode) \<Rightarrow> (None, f)
      | Inr (Found _ _) \<Rightarrow> (Some (PathError ''mkdir'' (rooted, []) ENOTDIR), f)
      | _ \<Rightarrow> mkdir_checked w f (rooted, []))"
| "mkdir_all w f rooted (c # rest) =
     (case resolve w f True (rooted, rev (c # rest)) of
        Inr (Found _ DirNode) \<Rightarrow> (None, f)
      | Inr (Found _ _) \<Rightarrow> (Some (PathError ''mkdir'' (rooted, rev (c # rest)) ENOTDIR), f)
      | _ \<Rightarrow>
          (case (if rest = [] then (None, f) else mkdir_all w f rooted rest) of
             (Some e, f') \<Rightarrow> (Some e, f')
           | (None, f') \<Rightarrow> mkdir_checked w f' (rooted, rev (c # rest))))"

definition os_MkdirAll :: "world \<Rightarrow> filesystem \<Rightarrow> path \<Rightarrow> error option \<times> filesystem" where
  "os_MkdirAll w f p = mkdir_all w f (fst p) (rev (snd p))"

text \<open>\<open>os.Symlink\<close> makes a new link; it fails when the name is taken.\<close>

definition os_Symlink :: "world \<Rightarrow> filesystem \<Rightarrow> path \<Rightarrow> path \<Rightarrow> error option \<times> filesystem" where
  "os_Symlink w f target p =
     (if target = empty_path then (Some (LinkError ''symlink'' target p ENOENT), f)
      else (case resolve w f False p of
              Inl e \<Rightarrow> (Some (LinkError ''symlink'' target p e), f)
            | Inr (Found _ _) \<Rightarrow> (Some (LinkError ''symlink'' target p EEXIST), f)
            | Inr (Missing k) \<Rightarrow> (None, AList.update k (LinkNode target) f)))"

text \<open>
  \<open>os.ReadDir\<close>: the entries of a directory as (name, IsDir), sorted by name.
  An entry that is a symbolic link is not a directory.
\<close>

fun str_less :: "string \<Rightarrow> string \<Rightarrow> bool" where
  "str_less [] [] = False"
| "str_less [] (y # ys) = True"
| "str_less (x # xs) [] = False"
| "str_less (x # xs) (y # ys) =
     ((of_char x :: nat) < of_char y \<or> (x = y \<and> str_less xs ys))"

fun insert_entry :: "string \<times> bool \<Rightarrow> (string \<times> bool) list \<Rightarrow> (string \<times> bool) list" where
  "insert_entry e [] = [e]"
| "insert_entry e (x # xs) =
     (if str_less (fst x) (fst e) then x # insert_entry e xs else e # x # xs)"

definition sort_entries :: "(string \<times> bool) list \<Rightarrow> (string \<times> bool) list" where
  "sort_entries es = foldr insert_entry es []"

definition children :: "filesystem \<Rightarrow> key \<Rightarrow> (string \<times> bool) list" where
  "children f d =
     map (\<lambda>k. (last k, map_of f k = Some DirNode))
       (filter (\<lambda>k. k \<noteq> [] \<and> butlast k = d) (remdups (map fst f)))"

definition os_ReadDir :: "world \<Rightarrow> filesystem \<Rightarrow> path \<Rightarrow> error + (string \<times> bool) list" where
  "os_ReadDir w f p =
     (case resolve w f True p of
        Inl e \<Rightarrow> Inl (PathError ''open'' p e)
      | Inr (Missing _) \<Rightarrow> Inl (PathError ''open'' p ENOENT)
      | Inr (Found d DirNode) \<Rightarrow> Inr (sort_entries (children f d))
      | Inr (Found _ _) \<Rightarrow> Inl (PathError ''readdirent'' p ENOTDIR))"

text \<open>\<open>os.Remove\<close> removes a file, a link or an empty directory.\<close>

definition os_Remove :: "world \<Rightarrow> filesystem \<Rightarrow> path \<Rightarrow> error option \<times> filesystem" where
  "os_Remove w f p =
     (case resolve w f False p of
        Inl e \<Rightarrow> (Some (PathError ''remove'' p e), f)
      | Inr (Missing _) \<Rightarrow> (Some (PathError ''remove'' p ENOENT), f)
      | Inr (Found k n) \<Rightarrow>
          (if k = [] \<or> (n = DirNode \<and> children f k \<noteq> [])
           then (Some (PathError ''remove'' p ENOTEMPTY), f)
           else (None, AList.delete k f)))"

text \<open>
  \<open>os.Rename\<close>: the old name must exist and is not followed; an existing new
  name is replaced when the kinds agree; a directory moves with what is below it.
\<close>

definition rekey :: "key \<Rightarrow> key \<Rightarrow> key \<times> node \<Rightarrow> key \<times> node" where
  "rekey old new e =
     (if take (length old) (fst e) = old then (new @ drop (length old) (fst e), snd e) else e)"

definition os_Rename :: "world \<Rightarrow> filesystem \<Rightarrow> path \<Rightarrow> path \<Rightarrow> error option \<times> filesystem" where
  "os_Rename w f old new =
     (case resolve w f False old of
        Inl e \<Rightarrow> (Some (LinkError ''rename'' old new e), f)
      | Inr (Missing _) \<Rightarrow> (Some (LinkError ''rename'' old new ENOENT), f)
      | Inr (Found ko n) \<Rightarrow>
          (case resolve w f False new of
             Inl e \<Rightarrow> (Some (LinkError ''rename'' old new e), f)
           | Inr (Missing kn) \<Rightarrow>
               (if ko = [] \<or> take (length ko) kn = ko
                then (Some (LinkError ''rename'' old new EINVAL), f)
                else (None, map (rekey ko kn) f))
           | Inr (Found kn n') \<Rightarrow>
               (if ko = kn then (None, f)
                else if ko = [] \<or> kn = [] \<or> take (length ko) kn = ko
                  then (Some (LinkError ''rename'' old new EINVAL), f)
                else if n' = DirNode \<and> n \<noteq> DirNode
                  then (Some (LinkError ''rename'' old new EISDIR), f)
                else if n' \<noteq> DirNode \<and> n = DirNode
                  then (Some (LinkError ''rename'' old new ENOTDIR), f)
                else if n' = DirNode \<and> children f kn \<noteq> []
                  then (Some (LinkError ''rename'' old new ENOTEMPTY), f)
                else (None, map (rekey ko kn) (AList.delete kn f)))))"

text \<open>
  \<open>os.OpenFile(path, O_WRONLY|O_CREATE|O_TRUNC, perm)\<close>: the place of the file
  that is opened and emptied, or created, by the call. Links are followed, also
  a link to a name that is still free.
\<close>

definition os_OpenFile :: "world \<Rightarrow> filesystem \<Rightarrow> path \<Rightarrow> (error + key) \<times> filesystem" where
  "os_OpenFile w f p =
     (case resolve w f True p of
        Inl e \<Rightarrow> (Inl (PathError ''open'' p e), f)
      | Inr (Missing k) \<Rightarrow> (Inr k, AList.update k (FileNode []) f)
      | Inr (Found k (FileNode _)) \<Rightarrow> (Inr k, AList.update k (FileNode []) f)
      | Inr (Found k DirNode) \<Rightarrow> (Inl (PathError ''open'' p EISDIR), f)
      | Inr (Found k (LinkNode _)) \<Rightarrow> (Inl (PathError ''open'' p ELOOP), f))"

text \<open>\<open>os.Open\<close> and reading to the end: the bytes of the file.\<close>

definition read_file :: "world \<Rightarrow> filesystem \<Rightarrow> path \<Rightarrow> error + string" where
  "read_file w f p =
     (case resolve w f True p of
        Inl e \<Rightarrow> Inl (PathError ''open'' p e)
      | Inr (Missing _) \<Rightarrow> Inl (PathError ''open'' p ENOENT)
      | Inr (Found _ (FileNode b)) \<Rightarrow> Inr b
      | Inr (Found _ _) \<Rightarrow> Inl (PathError ''read'' p EISDIR))"

section \<open>Semantic versions (github.com/Masterminds/semver)\<close>

text \<open>
  The library is a dependency, not part of the repository. \<open>NewVersion\<close> accepts
  what its regular expression
  \<^verbatim>\<open>^v?([0-9]+)(\.[0-9]+)?(\.[0-9]+)?(-ids)?(\+ids)?$\<close>
  accepts, where \<open>ids\<close> are dot-separated non-empty runs of letters, digits and
  hyphens, and the three numbers fit a signed 64-bit integer.
\<close>

record version =
  major :: nat
  minor :: nat
  patch :: nat
  pre :: string
  metadata :: string

definition is_digit :: "char \<Rightarrow> bool" where
  "is_digit c = (48 \<le> (of_char c :: nat) \<and> (of_char c :: nat) \<le> 57)"

definition is_id_char :: "char \<Rightarrow> bool" where
  "is_id_char c =
     (let n = (of_char c :: nat) in
      (48 \<le> n \<and> n \<le> 57) \<or> (65 \<le> n \<and> n \<le> 90) \<or> (97 \<le> n \<and> n \<le> 122) \<or> c = CHR ''-'')"

fun split_dot :: "string \<Rightarrow> string list" where
  "split_dot [] = [[]]"
| "split_dot (c # cs) =
     (if c = CHR ''.'' then [] # split_dot cs
      else (case split_dot cs of [] \<Rightarrow> [[c]] | x # xs \<Rightarrow> (c # x) # xs))"

definition valid_ids :: "string \<Rightarrow> bool" where
  "valid_ids s = (\<forall>i \<in> set (split_dot s). i \<noteq> [] \<and> (\<forall>c \<in> set i. is_id_char c))"

definition digits_value :: "string \<Rightarrow> nat" where
  "digits_value ds = foldl (\<lambda>n c. 10 * n + ((of_char c :: nat) - 48)) 0 ds"

text \<open>\<open>strconv.ParseInt(s, 10, 64)\<close> on a non-empty run of digits.\<close>

definition ParseInt :: "string \<Rightarrow> nat option" where
  "ParseInt ds = (if digits_value ds < 2 ^ 63 then Some (digits_value ds) else None)"

text \<open>One optional group \<open>(\.[0-9]+)?\<close>: the digits matched and the rest.\<close>

definition dot_segment :: "string \<Rightarrow> string option \<times> string" where
  "dot_segment s =
     (case s of
        c # cs \<Rightarrow>
          (if c = CHR ''.'' \<and> takeWhile is_digit cs \<noteq> []
           then (Some (takeWhile is_digit cs), dropWhile is_digit cs)
           else (None, s))
      | [] \<Rightarrow> (None, s))"

text \<open>The tail \<open>(-ids)?(\+ids)?$\<close>: prerelease and metadata, or no match.\<close>

definition tail_groups :: "string \<Rightarrow> (string \<times> string) option" where
  "tail_groups s =
     (let (p, r) =
        (case s of
           c # cs \<Rightarrow> (if c = CHR ''-''
                      then (Some (takeWhile (\<lambda>x. x \<noteq> CHR ''+'') cs), dropWhile (\<lambda>x. x \<noteq> CHR ''+'') cs)
                      else (None, s))
         | [] \<Rightarrow> (None, s))
      in if p \<noteq> None \<and> \<not> valid_ids (the p) then None
         else (case r of
                 [] \<Rightarrow> Some (case_option [] id p, [])
               | c # cs \<Rightarrow> (if c = CHR ''+'' \<and> valid_ids cs
                            then Some (case_option [] id p, cs) else None)))"

definition NewVersion :: "string \<Rightarrow> version option" where
  "NewVersion v =
     (let s = (case v of c # cs \<Rightarrow> (if c = CHR ''v'' then cs else v) | [] \<Rightarrow> v);
          m1 = takeWhile is_digit s;
          (m2, r2) = dot_segment (dropWhile is_digit s);
          (m3, r3) = dot_segment r2
      in if m1 = [] then None
         else (case tail_groups r3 of
                 None \<Rightarrow> None
               | Some (p, m) \<Rightarrow>
                   (case (ParseInt m1, ParseInt (case_option ''0'' id m2), ParseInt (case_option ''0'' id m3)) of
                      (Some a, Some b, Some c) \<Rightarrow>
                        Some \<lparr>major = a, minor = b, patch = c, pre = p, metadata = m\<rparr>
                    | _ \<Rightarrow> None)))"

text \<open>
  \<open>Compare\<close>: major, minor and patch first; then a version without prerelease
  is above one with a prerelease; two prereleases are compared part by part,
  numeric parts as numbers and below alphanumeric ones.
\<close>

definition ParseUint :: "string \<Rightarrow> nat option" where
  "ParseUint s =
     (if s \<noteq> [] \<and> (\<forall>c \<in> set s. is_digit c) \<and> digits_value s < 2 ^ 64
      then Some (digits_value s) else None)"

definition comparePrePart :: "string \<Rightarrow> string \<Rightarrow> int" where
  "comparePrePart s o' =
     (if s = o' then 0
      else if s = [] then - 1
      else if o' = [] then 1
      else (case (ParseUint s, ParseUint o') of
              (None, None) \<Rightarrow> (if str_less o' s then 1 else - 1)
            | (Some si, None) \<Rightarrow> - 1
            | (None, Some oi) \<Rightarrow> 1
            | (Some si, Some oi) \<Rightarrow> (if oi < si then 1 else - 1)))"

fun compareParts :: "string list \<Rightarrow> string list \<Rightarrow> int" where
  "compareParts [] [] = 0"
| "compareParts (s # ss) [] =
     (let d = comparePrePart s [] in if d \<noteq> 0 then d else compareParts ss [])"
| "compareParts [] (t # ts) =
     (let d = comparePrePart [] t in if d \<noteq> 0 then d else compareParts [] ts)"
| "compareParts (s # ss) (t # ts) =
     (let d = comparePrePart s t in if d \<noteq> 0 then d else compareParts ss ts)"

definition comparePrerelease :: "string \<Rightarrow> string \<Rightarrow> int" where
  "comparePrerelease v o' = compareParts (split_dot v) (split_dot o')"

definition compareSegment :: "nat \<Rightarrow> nat \<Rightarrow> int" where
  "compareSegment v o' = (if v < o' then - 1 else if o' < v then 1 else 0)"

definition Compare :: "version \<Rightarrow> version \<Rightarrow> int" where
  "Compare v o' =
     (if compareSegment (major v) (major o') \<noteq> 0 then compareSegment (major v) (major o')
      else if compareSegment (minor v) (minor o') \<noteq> 0 then compareSegment (minor v) (minor o')
      else if compareSegment (patch v) (patch o') \<noteq> 0 then compareSegment (patch v) (patch o')
      else if pre v = [] \<and> pre o' = [] then 0
      else if pre v = [] then 1
      else if pre o' = [] then - 1
      else comparePrerelease (pre v) (pre o'))"

definition GreaterThan :: "version \<Rightarrow> version \<Rightarrow> bool" where
  "GreaterThan v o' = (0 < Compare v o')"


section \<open>Package strings\<close>

definition HasPrefix :: "string \<Rightarrow> string \<Rightarrow> bool" where
  "HasPrefix s prefix = (take (length prefix) s = prefix)"

definition TrimPrefix :: "string \<Rightarrow> string \<Rightarrow> string" where
  "TrimPrefix s prefix = (if HasPrefix s prefix then drop (length prefix) s else s)"

text \<open>
  \<open>strings.TrimSpace\<close> removes the white space of Unicode at both ends of a
  string of bytes, read as UTF-8: the six characters of ASCII, U+0085, U+00A0,
  U+1680, U+2000 to U+200A, U+2028, U+2029, U+202F, U+205F and U+3000. A
  character is recognised at the start by the bytes of its encoding, and at the
  end by the same bytes before the end; bytes that are no encoding of a
  character are not white space. \<open>space_rune\<close> gives the number of bytes of
  the white space character that the bytes begin with, and \<open>space_rune_last\<close>
  of the one they end with (the bytes given last first); 0 when there is none.
\<close>

definition ascii_space :: "nat \<Rightarrow> bool" where
  "ascii_space a = ((9 \<le> a \<and> a \<le> 13) \<or> a = 32)"

definition space3 :: "nat \<Rightarrow> nat \<Rightarrow> nat \<Rightarrow> bool" where
  "space3 a b c =
     ((a = 225 \<and> b = 154 \<and> c = 128)
      \<or> (a = 226 \<and> b = 128 \<and> ((128 \<le> c \<and> c \<le> 138) \<or> c = 168 \<or> c = 169 \<or> c = 175))
      \<or> (a = 226 \<and> b = 129 \<and> c = 159)
      \<or> (a = 227 \<and> b = 128 \<and> c = 128))"

definition space2 :: "nat \<Rightarrow> nat \<Rightarrow> bool" where
  "space2 a b = (a = 194 \<and> (b = 133 \<or> b = 160))"

fun space_rune :: "nat list \<Rightarrow> nat" where
  "space_rune [] = 0"
| "space_rune [a] = (if ascii_space a then 1 else 0)"
| "space_rune [a, b] = (if ascii_space a then 1 else if space2 a b then 2 else 0)"
| "space_rune (a # b # c # _) =
     (if ascii_space a then 1 else if space2 a b then 2 else if space3 a b c then 3 else 0)"

fun space_rune_last :: "nat list \<Rightarrow> nat" where
  "space_rune_last [] = 0"
| "space_rune_last [c] = (if ascii_space c then 1 else 0)"
| "space_rune_last [c, b] = (if ascii_space c then 1 else if space2 b c then 2 else 0)"
| "space_rune_last (c # b # a # _) =
     (if ascii_space c then 1 else if space2 b c then 2 else if space3 a b c then 3 else 0)"

function trim_spaces :: "(nat list \<Rightarrow> nat) \<Rightarrow> string \<Rightarrow> string" where
  "trim_spaces width s =
     (if s \<noteq> [] \<and> 0 < width (map of_char s)
      then trim_spaces width (drop (width (map of_char s)) s)
      else s)"
  by pat_completeness auto
termination
  by (relation "measure (\<lambda>(width, s). length s)") auto

declare trim_spaces.simps [simp del]

definition TrimLeft :: "string \<Rightarrow> string" where
  "TrimLeft s = trim_spaces space_rune s"

definition TrimRight :: "string \<Rightarrow> string" where
  "TrimRight s = rev (trim_spaces space_rune_last (rev s))"

definition TrimSpace :: "string \<Rightarrow> string" where
  "TrimSpace s = TrimRight (TrimLeft s)"

section \<open>binr.go\<close>

text \<open>
  Calls to the logger are left out: they change neither a result nor the file
  system, and the package's default log level is disabled.

  A function that returns several values returns a tuple, its \<open>error\<close> as
  \<open>error option\<close> (\<open>None\<close> is \<open>nil\<close>). A function that can panic returns
  \<open>Panic\<close> instead of its results. Functions that touch the disk take the file
  system and, when they change it, return the new one.
\<close>

datatype 'a go = Return 'a | Panic

record config =
  update :: bool

type_synonym Source = "string \<Rightarrow> string \<Rightarrow> string \<Rightarrow> string \<times> string \<times> error option"

definition newConfig :: "(config \<Rightarrow> config) list \<Rightarrow> config" where
  "newConfig options = foldl (\<lambda>cfg option. option cfg) \<lparr>update = False\<rparr> options"

definition WithUpdate :: "config \<Rightarrow> config" where
  "WithUpdate c = c\<lparr>update := True\<rparr>"

definition dotfilesPath :: "world \<Rightarrow> path" where
  "dotfilesPath w =
     (let xdg = XDG_CONFIG_HOME w;
          home = (case UserHomeDir w of None \<Rightarrow> [] | Some h \<Rightarrow> h);
          homeErr = (UserHomeDir w = None);
          dotfiles = Join [of_string home, of_string ''.config'']
      in if homeErr \<and> xdg = [] then of_string ''.''
         else if xdg \<noteq> [] then of_string xdg
         else dotfiles)"

definition cachePath :: "world \<Rightarrow> path" where
  "cachePath w = fst (Abs w (Join [dotfilesPath w, of_string ''binr'', of_string ''.cache'']))"

definition Path :: "world \<Rightarrow> string \<Rightarrow> string \<Rightarrow> string \<Rightarrow> path \<times> error option" where
  "Path w namespace command version =
     (if namespace = [] then (empty_path, Some (ErrorsNew ''binr Path requires namespace''))
      else if command = [] then (empty_path, Some (ErrorsNew ''binr Path requires command''))
      else if version \<noteq> [] then
        (if NewVersion version = None
         then (empty_path, Some (ErrorsNew ''binr Path requires version to be a valid semver (ex: v1.2.3)''))
         else Abs w (Join [dotfilesPath w, of_string ''binr'', of_string namespace,
                           of_string (command @ ''-'' @ version)]))
      else Abs w (Join [dotfilesPath w, of_string ''binr'', of_string namespace, of_string command]))"

text \<open>\<open>setup\<close> of the source.\<close>

definition setup_cache :: "world \<Rightarrow> filesystem \<Rightarrow> error option \<times> filesystem" where
  "setup_cache w f =
     (let path = cachePath w; err = os_Stat w f path
      in if os_IsNotExist err then
           (case os_MkdirAll w f path of
              (Some e, f') \<Rightarrow> (Some (Errorf ''binr was unable to create cache directory. %w'' [] (Some e)), f')
            | (None, f') \<Rightarrow> (None, f'))
         else if err \<noteq> None then
           (Some (Errorf ''binr encountered an unexpected error accessing its cache. %w'' [] err), f)
         else (None, f))"

definition got :: "world \<Rightarrow> filesystem \<Rightarrow> path \<Rightarrow> bool" where
  "got w f path = (os_Stat w f path = None)"

definition getChecksum :: "world \<Rightarrow> string \<Rightarrow> string \<times> error option" where
  "getChecksum w url =
     (if url = [] then ([], None)
      else (case http_get w url of
              NewRequestError e \<Rightarrow> ([], Some e)
            | DoError e \<Rightarrow>
                ([], Some (Errorf ''binr was unable to fetch the command's checksum from url %q. %w'' [Str url] (Some e)))
            | Response status ctype body readErr \<Rightarrow>
                (if status \<noteq> 200 then
                   ([], Some (Errorf ''binr received an HTTP %v from checksum URL %q'' [Num status, Str url] None))
                 else (case readErr of
                         Some e \<Rightarrow>
                           ([], Some (Errorf ''binr received an error reading the checksum URL %q. %w'' [Str url] (Some e)))
                       | None \<Rightarrow> (TrimSpace body, None)))))"

definition download :: "world \<Rightarrow> filesystem \<Rightarrow> string \<Rightarrow> path \<Rightarrow> string \<Rightarrow> error option \<times> filesystem" where
  "download w f url outPath contentType =
     (if os_Stat w f outPath = None then
        (Some (Errorf ''binr encountered an existing download file. If you are sure it is from a failed earlier attempt, the file can be removed. %v''
                 [Str (render outPath)] None), f)
      else (case http_get w url of
              NewRequestError e \<Rightarrow> (Some e, f)
            | DoError e \<Rightarrow> (Some (Errorf ''binr received an http error fetching the command. %w'' [] (Some e)), f)
            | Response status ctype body readErr \<Rightarrow>
                (if status \<noteq> 200 then
                   (Some (Errorf ''binr received an HTTP %v from source URL %q'' [Num status, Str url] None), f)
                 else if ctype \<noteq> contentType then
                   (Some (Errorf ''binr unable to source command.  Source URL reported a content type of %q when an %q was expected''
                            [Str ctype, Str contentType] None), f)
                 else (case os_OpenFile w f outPath of
                         (Inl e, f') \<Rightarrow>
                           (Some (Errorf ''binr unable to open local file for writing. %w'' [] (Some e)), f')
                       | (Inr k, f') \<Rightarrow>
                           (case readErr of
                              Some e \<Rightarrow>
                                (Some (Errorf ''binr encoutered an error copying remote data. %w'' [] (Some e)),
                                 AList.update k (FileNode body) f')
                            | None \<Rightarrow> (None, AList.update k (FileNode body) f'))))))"

definition cached :: "world \<Rightarrow> filesystem \<Rightarrow> string \<Rightarrow> bool" where
  "cached w f checksum =
     (if checksum = [] then False
      else os_Stat w f (Join [cachePath w, of_string checksum]) = None)"

definition calculateChecksum :: "world \<Rightarrow> filesystem \<Rightarrow> path \<Rightarrow> string \<times> error option" where
  "calculateChecksum w f filePath =
     (case read_file w f filePath of
        Inl e \<Rightarrow> ([], Some (Errorf ''binr unable to calculate file's checksum. %w'' [] (Some e)))
      | Inr bytes \<Rightarrow> (sha256_hex w bytes, None))"

definition verify :: "world \<Rightarrow> filesystem \<Rightarrow> path \<Rightarrow> string \<Rightarrow> error option" where
  "verify w f path checksum =
     (case calculateChecksum w f path of
        (fileChecksum, Some e) \<Rightarrow> Some e
      | (fileChecksum, None) \<Rightarrow>
          (if fileChecksum \<noteq> checksum
           then Some (ErrorsNew ''binr detected a checksum mismatch. Not sourcing command'')
           else None))"

text \<open>
  The closure \<open>done\<close> that \<open>cache\<close> returns is known by the one variable it
  captures, the temporary file; \<open>None\<close> is the nil function value, and
  \<open>done_cleanup\<close> is the body of the closure.
\<close>

type_synonym cleanup = "path option"

definition done_cleanup :: "world \<Rightarrow> path \<Rightarrow> filesystem \<Rightarrow> filesystem" where
  "done_cleanup w tmpfile f =
     (if os_IsNotExist (os_Stat w f tmpfile) then f else snd (os_Remove w f tmpfile))"

definition cache :: "world \<Rightarrow> filesystem \<Rightarrow> string \<Rightarrow> string \<Rightarrow> (string \<times> cleanup \<times> error option) \<times> filesystem" where
  "cache w f url checksum =
     (if cached w f checksum then (([], None, None), f)
      else
        (let tmpfile = Join [cachePath w, of_string (Now w @ ''.partial'')] in
         case download w f url tmpfile ''application/octet-stream'' of
           (Some e, f1) \<Rightarrow> (([], Some tmpfile, Some e), f1)
         | (None, f1) \<Rightarrow>
             (if checksum = [] then
                (case calculateChecksum w f1 tmpfile of
                   (c, Some e) \<Rightarrow> (([], Some tmpfile, Some e), f1)
                 | (c, None) \<Rightarrow>
                     (case os_Rename w f1 tmpfile (Join [cachePath w, of_string c]) of
                        (e, f2) \<Rightarrow> ((c, Some tmpfile, e), f2)))
              else
                (case verify w f1 tmpfile checksum of
                   Some e \<Rightarrow> (([], Some tmpfile, Some e), f1)
                 | None \<Rightarrow>
                     (case os_Rename w f1 tmpfile (Join [cachePath w, of_string checksum]) of
                        (e, f2) \<Rightarrow> ((checksum, Some tmpfile, e), f2))))))"

fun isNewer_loop :: "string \<Rightarrow> (string \<times> bool) list \<Rightarrow> version option \<Rightarrow> error + version option" where
  "isNewer_loop command [] highest = Inr highest"
| "isNewer_loop command (file # files) highest =
     (if snd file then isNewer_loop command files highest
      else if \<not> HasPrefix (fst file) (command @ ''-'') then isNewer_loop command files highest
      else (case NewVersion (TrimPrefix (fst file) (command @ ''-'')) of
              None \<Rightarrow>
                Inl (Errorf ''binr found a file which is not of the expected form [command]-[version]: %q. the version does not appear to be a Semver (v1.2.3)''
                       [Str (fst file)] None)
            | Some v \<Rightarrow>
                (case highest of
                   None \<Rightarrow> isNewer_loop command files (Some v)
                 | Some h \<Rightarrow>
                     (if GreaterThan v h then isNewer_loop command files (Some v)
                      else isNewer_loop command files highest))))"

definition isNewer :: "world \<Rightarrow> filesystem \<Rightarrow> string \<Rightarrow> string \<Rightarrow> string \<Rightarrow> (bool \<times> error option) go" where
  "isNewer w f namespace command versionStr =
     (let dir = Join [dotfilesPath w, of_string ''binr'', of_string namespace] in
      case NewVersion versionStr of
        None \<Rightarrow>
          Return (False, Some (Errorf ''binr can not determine if the given command is the latest because an invalid semver was received: %q''
                                 [Str versionStr] None))
      | Some version \<Rightarrow>
          (case os_ReadDir w f dir of
             Inl e \<Rightarrow> Return (False, Some (Errorf ''binr unable to check for latest version. %w'' [] (Some e)))
           | Inr files \<Rightarrow>
               (case isNewer_loop command files None of
                  Inl e \<Rightarrow> Return (False, Some e)
                | Inr None \<Rightarrow> Panic
                | Inr (Some highest) \<Rightarrow> Return (\<not> GreaterThan highest version, None))))"

definition link :: "world \<Rightarrow> filesystem \<Rightarrow> string \<Rightarrow> string \<Rightarrow> string \<Rightarrow> string \<Rightarrow> error option go \<times> filesystem" where
  "link w f namespace command version csum =
     (case Path w namespace command version of
        (pathVersioned, Some e) \<Rightarrow> (Return (Some e), f)
      | (pathVersioned, None) \<Rightarrow>
          (let target = Join [of_string ''..'', of_string ''.cache'', of_string csum] in
           case os_Mkdir w f (Dir pathVersioned) of
             (Some e, f1) \<Rightarrow> (Return (Some e), f1)
           | (None, f1) \<Rightarrow>
               (case os_Symlink w f1 target pathVersioned of
                  (Some e, f2) \<Rightarrow> (Return (Some e), f2)
                | (None, f2) \<Rightarrow>
                    (case isNewer w f2 namespace command version of
                       Panic \<Rightarrow> (Panic, f2)
                     | Return (ok, err) \<Rightarrow>
                         (if \<not> ok \<or> err \<noteq> None then (Return err, f2)
                          else (case Path w namespace command [] of
                                  (pathUnversioned, Some e) \<Rightarrow> (Return (Some e), f2)
                                | (pathUnversioned, None) \<Rightarrow>
                                    (case os_Symlink w f2 target pathUnversioned of
                                       (e, f3) \<Rightarrow> (Return e, f3))))))))"

text \<open>
  \<open>Get\<close>. The statement \<open>defer cleanup()\<close> is reached only after \<open>cache\<close> has
  returned without error; the deferred call then runs when \<open>Get\<close> returns or
  panics, and calling a nil function value panics. A nil \<open>source\<close> is
  \<open>None\<close>. The source's variable \<open>sum\<close> is \<open>csum\<close> here.
\<close>

definition Get :: "world \<Rightarrow> filesystem \<Rightarrow> string \<Rightarrow> string \<Rightarrow> string \<Rightarrow> Source option \<Rightarrow> (config \<Rightarrow> config) list
    \<Rightarrow> (path \<times> error option) go \<times> filesystem" where
  "Get w f namespace command version source options =
     (let cfg = newConfig options in
      if namespace = [] then (Return (empty_path, Some (ErrorsNew ''binr Get requires namespace'')), f)
      else if command = [] then (Return (empty_path, Some (ErrorsNew ''binr Get requires command'')), f)
      else if version = [] then (Return (empty_path, Some (ErrorsNew ''binr Get requires a version'')), f)
      else if NewVersion version = None then
        (Return (empty_path, Some (ErrorsNew ''binr Get requires version to be a valid semver (ex: v1.2.3)'')), f)
      else
        (case source of
           None \<Rightarrow>
             (Return (empty_path, Some (ErrorsNew ''binr Get requires a Source to resolve missing dependencies'')), f)
         | Some src \<Rightarrow>
             (if update cfg then
                (Return (empty_path, Some (ErrorsNew ''binr Get WithUpdate is not yet implemented'')), f)
              else
                (case setup_cache w f of
                   (Some e, f0) \<Rightarrow> (Return (empty_path, Some e), f0)
                 | (None, f0) \<Rightarrow>
                     (case Path w namespace command version of
                        (path, Some e) \<Rightarrow> (Return (path, Some e), f0)
                      | (path, None) \<Rightarrow>
                          (if got w f0 path then (Return (path, None), f0)
                           else (case src version (GOOS w) (GOARCH w) of
                                   (sourceURL, sumURL, Some e) \<Rightarrow> (Return (path, Some e), f0)
                                 | (sourceURL, sumURL, None) \<Rightarrow>
                                     (case getChecksum w sumURL of
                                        (csum, Some e) \<Rightarrow> (Return (path, Some e), f0)
                                      | (csum, None) \<Rightarrow>
                                          (case cache w f0 sourceURL csum of
                                             ((csum', cleanup, Some e), f1) \<Rightarrow> (Return (path, Some e), f1)
                                           | ((csum', cleanup, None), f1) \<Rightarrow>
                                               (case link w f1 namespace command version csum' of
                                                  (r, f2) \<Rightarrow>
                                                    (case cleanup of
                                                       None \<Rightarrow> (Panic, f2)
                                                     | Some tmpfile \<Rightarrow>
                                                         (case r of
                                                            Panic \<Rightarrow> (Panic, done_cleanup w tmpfile f2)
                                                          | Return err \<Rightarrow>
                                                              (Return (path, err), done_cleanup w tmpfile f2)))))))))))))"

section \<open>Auxiliary notions for the proofs\<close>

text \<open>
  The elements a path string contributes to a cleaned path when no \<open>..\<close> is
  involved.
\<close>

definition elements :: "string \<Rightarrow> string list" where
  "elements s = filter (\<lambda>c. c \<noteq> [] \<and> c \<noteq> ''.'') (split_sep s)"

section \<open>Example worlds and file systems\<close>

definition example_net :: "string \<Rightarrow> http_result" where
  "example_net url =
     (if url = ''http://h/v1.2.0/bin'' then Response 200 ''application/octet-stream'' ''B120'' None
      else if url = ''http://h/v1.0.0/bin'' then Response 200 ''application/octet-stream'' ''B100'' None
      else if url = ''http://h/v1.2.0/sum'' then Response 200 ''text/plain'' ''h:B120'' None
      else if url = ''http://h/bad/sum'' then Response 200 ''text/plain'' ''h:other'' None
      else Response 404 ''text/plain'' [] None)"

definition example_world :: world where
  "example_world =
     \<lparr>XDG_CONFIG_HOME = ''/x'', UserHomeDir = None, Getwd = Some [''w''], cwd = [''w''],
      GOOS = ''linux'', GOARCH = ''amd64'', Now = ''t1'',
      http_get = example_net, sha256_hex = (\<lambda>b. ''h:'' @ b)\<rparr>"

definition later_world :: world where
  "later_world = example_world\<lparr>Now := ''t2''\<rparr>"

definition homeless_world :: world where
  "homeless_world = example_world\<lparr>XDG_CONFIG_HOME := []\<rparr>"

text \<open>A source without a checksum URL, one with, and one whose checksum is wrong.\<close>

definition example_source :: Source where
  "example_source v os arch = (''http://h/'' @ v @ ''/bin'', [], None)"

definition example_source_sum :: Source where
  "example_source_sum v os arch = (''http://h/'' @ v @ ''/bin'', ''http://h/'' @ v @ ''/sum'', None)"

definition example_source_badsum :: Source where
  "example_source_badsum v os arch = (''http://h/'' @ v @ ''/bin'', ''http://h/bad/sum'', None)"

text \<open>The disk after \<open>setup\<close>, and after the first install of testbin v1.2.0.\<close>

definition fs_base :: filesystem where
  "fs_base =
     [([''x''], DirNode), ([''x'', ''binr''], DirNode), ([''x'', ''binr'', ''.cache''], DirNode)]"

definition fs_installed :: filesystem where
  "fs_installed =
     [([''x''], DirNode), ([''x'', ''binr''], DirNode),
      ([''x'', ''binr'', ''.cache''], DirNode),
      ([''x'', ''binr'', ''.cache'', ''h:B120''], FileNode ''B120''),
      ([''x'', ''binr'', ''myapp''], DirNode),
      ([''x'', ''binr'', ''myapp'', ''testbin-v1.2.0''], LinkNode (False, [''..'', ''.cache'', ''h:B120''])),
      ([''x'', ''binr'', ''myapp'', ''testbin''], LinkNode (False, [''..'', ''.cache'', ''h:B120'']))]"

text \<open>The disk after a first install of testbin v1.0.0 instead.\<close>

definition fs_installed_old :: filesystem where
  "fs_installed_old =
     [([''x''], DirNode), ([''x'', ''binr''], DirNode),
      ([''x'', ''binr'', ''.cache''], DirNode),
      ([''x'', ''binr'', ''.cache'', ''h:B100''], FileNode ''B100''),
      ([''x'', ''binr'', ''myapp''], DirNode),
      ([''x'', ''binr'', ''myapp'', ''testbin-v1.0.0''], LinkNode (False, [''..'', ''.cache'', ''h:B100''])),
      ([''x'', ''binr'', ''myapp'', ''testbin''], LinkNode (False, [''..'', ''.cache'', ''h:B100'']))]"

text \<open>
  The disk after a download whose checksum did not match; two versions linked;
  a stray entry \<open>testbin-latest\<close>; and a namespace that holds the links of the
  command \<open>foo-bar\<close>, or of the command \<open>foo-1\<close>.
\<close>

definition fs_partial :: filesystem where
  "fs_partial =
     [([''x''], DirNode), ([''x'', ''binr''], DirNode),
      ([''x'', ''binr'', ''.cache''], DirNode),
      ([''x'', ''binr'', ''.cache'', ''t1.partial''], FileNode ''B120'')]"

definition fs_two_versions :: filesystem where
  "fs_two_versions =
     fs_installed @
     [([''x'', ''binr'', ''myapp'', ''testbin-v2.0.0''], LinkNode (False, [''..'', ''.cache'', ''h:B200'']))]"

definition fs_stray :: filesystem where
  "fs_stray =
     fs_installed @
     [([''x'', ''binr'', ''myapp'', ''testbin-latest''], LinkNode (False, [''..'', ''.cache'', ''h:B120'']))]"

definition fs_foo_bar :: filesystem where
  "fs_foo_bar =
     [([''x''], DirNode), ([''x'', ''binr''], DirNode),
      ([''x'', ''binr'', ''.cache''], DirNode),
      ([''x'', ''binr'', ''.cache'', ''h:B120''], FileNode ''B120''),
      ([''x'', ''binr'', ''myapp''], DirNode),
      ([''x'', ''binr'', ''myapp'', ''foo-bar-v1.0.0''], LinkNode (False, [''..'', ''.cache'', ''h:B120''])),
      ([''x'', ''binr'', ''myapp'', ''foo-bar''], LinkNode (False, [''..'', ''.cache'', ''h:B120'']))]"

definition fs_foo_1 :: filesystem where
  "fs_foo_1 =
     [([''x''], DirNode), ([''x'', ''binr''], DirNode),
      ([''x'', ''binr'', ''.cache''], DirNode),
      ([''x'', ''binr'', ''.cache'', ''h:B120''], FileNode ''B120''),
      ([''x'', ''binr'', ''myapp''], DirNode),
      ([''x'', ''binr'', ''myapp'', ''foo-1-v1.0.0''], LinkNode (False, [''..'', ''.cache'', ''h:B120''])),
      ([''x'', ''binr'', ''myapp'', ''foo-1''], LinkNode (False, [''..'', ''.cache'', ''h:B120'']))]"

text \<open>
  A process whose working directory \<open>/a/link\<close> is a symbolic link to \<open>/b/d\<close>,
  with \<open>XDG_CONFIG_HOME=../cfg\<close>: \<open>os.Getwd\<close> gives the name the process was
  started with, the kernel resolves relative paths from \<open>/b/d\<close>. Both
  \<open>/a/cfg/binr\<close> and \<open>/b/cfg/binr\<close> exist, the second with an empty
  directory \<open>myapp\<close>.
\<close>

definition linked_world :: world where
  "linked_world =
     example_world\<lparr>XDG_CONFIG_HOME := ''../cfg'', Getwd := Some [''a'', ''link''], cwd := [''b'', ''d'']\<rparr>"

definition fs_linked :: filesystem where
  "fs_linked =
     [([''a''], DirNode), ([''a'', ''link''], LinkNode (True, [''b'', ''d''])),
      ([''a'', ''cfg''], DirNode), ([''a'', ''cfg'', ''binr''], DirNode),
      ([''b''], DirNode), ([''b'', ''d''], DirNode),
      ([''b'', ''cfg''], DirNode), ([''b'', ''cfg'', ''binr''], DirNode),
      ([''b'', ''cfg'', ''binr'', ''myapp''], DirNode)]"

text \<open>A disk where the configuration directory \<open>/x\<close> is a link to \<open>/realx\<close>.\<close>

definition fs_config_link :: filesystem where
  "fs_config_link = [([''realx''], DirNode), ([''x''], LinkNode (True, [''realx'']))]"

definition mismatch :: error where
  "mismatch = ErrorsNew ''binr detected a checksum mismatch. Not sourcing command''"

definition unparseable :: "string \<Rightarrow> error" where
  "unparseable name =
     Errorf ''binr found a file which is not of the expected form [command]-[version]: %q. the version does not appear to be a Semver (v1.2.3)''
       [Str name] None"

section \<open>The model on the repository's tests\<close>

lemma TestPath_table:
  "render (fst (Path homeless_world ''myapp'' ''mybin'' [])) = ''/w/binr/myapp/mybin''"
  "render (fst (Path (homeless_world\<lparr>UserHomeDir := Some ''/users/alice''\<rparr>) ''myapp'' ''mybin'' [])) =
     ''/users/alice/.config/binr/myapp/mybin''"
  "render (fst (Path (example_world\<lparr>XDG_CONFIG_HOME := ''/users/alice/.xdg_config''\<rparr>) ''myapp'' ''mybin'' [])) =
     ''/users/alice/.xdg_config/binr/myapp/mybin''"
  "render (fst (Path (example_world\<lparr>XDG_CONFIG_HOME := ''/users/alice/.xdg_config'',
           UserHomeDir := Some ''/users/alice''\<rparr>) ''myapp'' ''mybin'' [])) =
     ''/users/alice/.xdg_config/binr/myapp/mybin''"
  "render (fst (Path (homeless_world\<lparr>UserHomeDir := Some ''/users/alice''\<rparr>) ''myapp'' ''mybin'' ''v1.0.0'')) =
     ''/users/alice/.config/binr/myapp/mybin-v1.0.0''"
  "snd (Path (homeless_world\<lparr>UserHomeDir := Some ''/users/alice''\<rparr>) ''myapp'' ''mybin'' ''foo'') \<noteq> None"
  by code_simp+

lemma TestGet_first_install:
  "Get example_world [] ''myapp'' ''testbin'' ''v1.2.0'' (Some example_source) [] =
     (Return ((True, [''x'', ''binr'', ''myapp'', ''testbin-v1.2.0'']), None), fs_installed)"
  by code_simp

section \<open>The model on disks with symbolic links\<close>

text \<open>
  When the configuration directory is a symbolic link to a directory, \<open>setup\<close>
  and \<open>Get\<close> work through it: the cache and the links are made in the
  directory the link leads to.
\<close>

lemma setup_through_a_link:
  "setup_cache example_world fs_config_link =
     (None, fs_config_link @
        [([''realx'', ''binr''], DirNode), ([''realx'', ''binr'', ''.cache''], DirNode)])"
  by code_simp

lemma Get_through_a_link:
  "Get example_world fs_config_link ''myapp'' ''testbin'' ''v1.2.0'' (Some example_source) [] =
     (Return ((True, [''x'', ''binr'', ''myapp'', ''testbin-v1.2.0'']), None),
      fs_config_link @
        [([''realx'', ''binr''], DirNode), ([''realx'', ''binr'', ''.cache''], DirNode),
         ([''realx'', ''binr'', ''.cache'', ''h:B120''], FileNode ''B120''),
         ([''realx'', ''binr'', ''myapp''], DirNode),
         ([''realx'', ''binr'', ''myapp'', ''testbin-v1.2.0''], LinkNode (False, [''..'', ''.cache'', ''h:B120''])),
         ([''realx'', ''binr'', ''myapp'', ''testbin''], LinkNode (False, [''..'', ''.cache'', ''h:B120'']))])"
  by code_simp

text \<open>
  \<open>os.MkdirAll\<close> on a name that is taken: by a link to nothing, by a link to a
  directory, by a file; and a relative path, made in the working directory.
\<close>

lemma MkdirAll_on_taken_names:
  "os_MkdirAll example_world [([''l''], LinkNode (False, [''gone'']))] (True, [''l'']) =
     (Some (PathError ''mkdir'' (True, [''l'']) EEXIST), [([''l''], LinkNode (False, [''gone'']))])"
  "os_MkdirAll example_world [([''d''], DirNode), ([''l''], LinkNode (False, [''d'']))] (True, [''l'']) =
     (None, [([''d''], DirNode), ([''l''], LinkNode (False, [''d'']))])"
  "os_MkdirAll example_world [([''d''], FileNode [])] (True, [''d'']) =
     (Some (PathError ''mkdir'' (True, [''d'']) ENOTDIR), [([''d''], FileNode [])])"
  "os_MkdirAll example_world [([''w''], DirNode)] (False, [''p'', ''q'']) =
     (None, [([''w''], DirNode), ([''w'', ''p''], DirNode), ([''w'', ''p'', ''q''], DirNode)])"
  by code_simp+

text \<open>
  \<open>strings.TrimSpace\<close> removes U+00A0 (bytes C2 A0), U+2028 (E2 80 A8) and
  U+0085 (C2 85) like the white space of ASCII, and leaves a byte A0 that is
  not part of a character.
\<close>

lemma TrimSpace_of_Unicode_white_space:
  "TrimSpace (''  abc'' @ [char_of (194 :: nat), char_of (160 :: nat), CHR '' '',
       char_of (226 :: nat), char_of (128 :: nat), char_of (168 :: nat), CHR 0x0A]) = ''abc''"
  "TrimSpace ([char_of (194 :: nat), char_of (133 :: nat)] @ ''a b'' @ [char_of (160 :: nat)]) =
     ''a b'' @ [char_of (160 :: nat)]"
  "getChecksum (example_world\<lparr>http_get := (\<lambda>url. Response 200 ''text/plain''
       (''h:B120'' @ [char_of (194 :: nat), char_of (160 :: nat)]) None)\<rparr>) ''http://h/sum'' =
     (''h:B120'', None)"
  by code_simp+

section \<open>Cleaned paths\<close>

lemma split_sep_plain: "CHR ''/'' \<notin> set s \<Longrightarrow> split_sep s = [s]"
  by (induction s) auto

lemma snd_of_string: "snd (of_string s) = split_sep s"
  by (cases s) (auto simp: of_string_def)

lemma clean_without_up:
  "''..'' \<notin> set xs \<Longrightarrow>
   foldl (clean_step r) st xs = st @ filter (\<lambda>c. c \<noteq> [] \<and> c \<noteq> ''.'') xs"
proof (induction xs arbitrary: st)
  case Nil
  then show ?case by simp
next
  case (Cons c cs)
  then have "c \<noteq> ''..''" by auto
  then have "clean_step r st c = (if c = [] \<or> c = ''.'' then st else st @ [c])"
    by (simp add: clean_step_def)
  with Cons show ?case by simp
qed

lemma split_sep_not_Nil: "split_sep s \<noteq> []"
  by (induction s) (auto split: list.splits)

lemma split_sep_append_plain:
  "CHR ''/'' \<notin> set b \<Longrightarrow>
   split_sep (a @ b) = butlast (split_sep a) @ [last (split_sep a) @ b]"
proof (induction a)
  case Nil
  then show ?case by (simp add: split_sep_plain)
next
  case (Cons c a)
  show ?case
  proof (cases "split_sep a")
    case Nil
    with split_sep_not_Nil show ?thesis by blast
  next
    case (Cons x xs)
    with Cons.IH[OF Cons.prems] show ?thesis
      by (cases "split_sep (a @ b)") (auto split: if_splits)
  qed
qed

section \<open>Facts about the file system\<close>

text \<open>Neither \<open>setup\<close> nor \<open>download\<close> creates a symbolic link.\<close>

lemma os_Mkdir_keeps_links:
  "os_Mkdir w f p = (e, f') \<Longrightarrow> map_of f' k = Some (LinkNode t) \<Longrightarrow> map_of f k = Some (LinkNode t)"
  by (auto simp: os_Mkdir_def update_conv' split: sum.splits found.splits if_splits)

lemma mkdir_checked_keeps_links:
  "mkdir_checked w f p = (e, f') \<Longrightarrow> map_of f' k = Some (LinkNode t) \<Longrightarrow> map_of f k = Some (LinkNode t)"
  by (auto simp: mkdir_checked_def
      split: prod.splits option.splits sum.splits found.splits node.splits
      dest: os_Mkdir_keeps_links)

lemma mkdir_all_keeps_links:
  "mkdir_all w f rooted cs = (e, f') \<Longrightarrow> map_of f' k = Some (LinkNode t) \<Longrightarrow> map_of f k = Some (LinkNode t)"
proof (induction cs arbitrary: e f')
  case Nil
  then show ?case
    by (auto split: sum.splits found.splits node.splits dest: mkdir_checked_keeps_links)
next
  case (Cons c rest)
  obtain e0 f0 where parent: "(if rest = [] then (None, f) else mkdir_all w f rooted rest) = (e0, f0)"
    by (cases "if rest = [] then (None, f) else mkdir_all w f rooted rest") auto
  have keep0: "map_of f k = Some (LinkNode t)" if "map_of f0 k = Some (LinkNode t)"
  proof (cases "rest = []")
    case True
    with parent that show ?thesis by simp
  next
    case False
    with parent have "mkdir_all w f rooted rest = (e0, f0)" by simp
    from Cons.IH[OF this that] show ?thesis .
  qed
  from Cons.prems(1) parent have
    "(e, f') = (None, f) \<or> (\<exists>e'. (e, f') = (Some e', f)) \<or> (e, f') = (e0, f0) \<or>
     mkdir_checked w f0 (rooted, rev (c # rest)) = (e, f')"
    by (auto split: sum.splits found.splits node.splits option.splits)
  with Cons.prems(2) keep0 show ?case
    by (auto dest: mkdir_checked_keeps_links)
qed

lemma setup_cache_keeps_links:
  "setup_cache w f = (e, f') \<Longrightarrow> map_of f' k = Some (LinkNode t) \<Longrightarrow> map_of f k = Some (LinkNode t)"
  by (auto simp: setup_cache_def os_MkdirAll_def Let_def
      split: if_splits option.splits prod.splits dest: mkdir_all_keeps_links)

lemma download_keeps_links:
  "download w f url out ct = (e, f') \<Longrightarrow> map_of f' k = Some (LinkNode t) \<Longrightarrow> map_of f k = Some (LinkNode t)"
  by (auto simp: download_def os_OpenFile_def update_conv'
      split: if_splits option.splits prod.splits http_result.splits sum.splits
        found.splits node.splits)

text \<open>
  A path that leads to a file, or to a free name, leads to the file once it has
  been written there: the directories and links on the way are where they were.
\<close>

lemma namei_skip:
  "c = [] \<or> c = ''.'' \<Longrightarrow> namei n f fl cur (c # cs) = namei n f fl cur cs"
  by simp

lemma namei_up:
  "c = ''..'' \<Longrightarrow> namei n f fl cur (c # cs) = namei n f fl (butlast cur) cs"
  by simp

lemma namei_missing:
  "\<not> (c = [] \<or> c = ''.'') \<Longrightarrow> c \<noteq> ''..'' \<Longrightarrow> map_of f (cur @ [c]) = None \<Longrightarrow>
   namei n f fl cur (c # cs) = (if cs = [] then Inr (Missing (cur @ [c])) else Inl ENOENT)"
  by simp

lemma namei_dir:
  "\<not> (c = [] \<or> c = ''.'') \<Longrightarrow> c \<noteq> ''..'' \<Longrightarrow> map_of f (cur @ [c]) = Some DirNode \<Longrightarrow>
   namei n f fl cur (c # cs) = namei n f fl (cur @ [c]) cs"
  by simp

lemma namei_file:
  "\<not> (c = [] \<or> c = ''.'') \<Longrightarrow> c \<noteq> ''..'' \<Longrightarrow> map_of f (cur @ [c]) = Some (FileNode b) \<Longrightarrow>
   namei n f fl cur (c # cs) =
     (if cs = [] then Inr (Found (cur @ [c]) (FileNode b)) else Inl ENOTDIR)"
  by simp

lemma namei_link_last:
  "\<not> (c = [] \<or> c = ''.'') \<Longrightarrow> c \<noteq> ''..'' \<Longrightarrow> map_of f (cur @ [c]) = Some (LinkNode t) \<Longrightarrow>
   cs = [] \<and> \<not> fl \<Longrightarrow>
   namei n f fl cur (c # cs) = Inr (Found (cur @ [c]) (LinkNode t))"
  by simp

lemma namei_link_loop:
  "\<not> (c = [] \<or> c = ''.'') \<Longrightarrow> c \<noteq> ''..'' \<Longrightarrow> map_of f (cur @ [c]) = Some (LinkNode t) \<Longrightarrow>
   \<not> (cs = [] \<and> \<not> fl) \<Longrightarrow>
   namei 0 f fl cur (c # cs) = Inl ELOOP"
  by simp

lemma namei_link_follow:
  "\<not> (c = [] \<or> c = ''.'') \<Longrightarrow> c \<noteq> ''..'' \<Longrightarrow> map_of f (cur @ [c]) = Some (LinkNode t) \<Longrightarrow>
   \<not> (cs = [] \<and> \<not> fl) \<Longrightarrow>
   namei (Suc m) f fl cur (c # cs) = namei m f fl (if fst t then [] else cur) (snd t @ cs)"
  by (cases "cs = []") auto

lemma namei_kind:
  "namei n f fl cur es = Inr r \<Longrightarrow>
   (\<forall>k. r = Missing k \<longrightarrow> map_of f k = None) \<and>
   (\<forall>k c. r = Found k (FileNode c) \<longrightarrow> map_of f k = Some (FileNode c))"
proof (induction n f fl cur es rule: namei.induct)
  case (1 fuel f follow cur)
  then show ?case by auto
next
  case (2 fuel f follow cur c cs)
  note res = "2.prems"
  show ?case
  proof (cases "c = [] \<or> c = ''.''")
    case True
    from res have "namei fuel f follow cur cs = Inr r"
      unfolding namei_skip[OF True] .
    from "2.IH"(1)[OF True this] show ?thesis .
  next
    case dot: False
    show ?thesis
    proof (cases "c = ''..''")
      case True
      from res have "namei fuel f follow (butlast cur) cs = Inr r"
        unfolding namei_up[OF True] .
      from "2.IH"(2)[OF dot True this] show ?thesis .
    next
      case up: False
      show ?thesis
      proof (cases "map_of f (cur @ [c])")
        case None
        from res have "(if cs = [] then Inr (Missing (cur @ [c])) else Inl ENOENT) = Inr r"
          unfolding namei_missing[OF dot up None] .
        then have "r = Missing (cur @ [c])" by (simp split: if_splits)
        with None show ?thesis by simp
      next
        case (Some nd)
        show ?thesis
        proof (cases nd)
          case DirNode
          with Some have d: "map_of f (cur @ [c]) = Some DirNode" by simp
          from res have "namei fuel f follow (cur @ [c]) cs = Inr r"
            unfolding namei_dir[OF dot up d] .
          from "2.IH"(3)[OF dot up Some DirNode this] show ?thesis .
        next
          case (FileNode b)
          with Some have d: "map_of f (cur @ [c]) = Some (FileNode b)" by simp
          from res have "(if cs = [] then Inr (Found (cur @ [c]) (FileNode b)) else Inl ENOTDIR) = Inr r"
            unfolding namei_file[OF dot up d] .
          then have "r = Found (cur @ [c]) (FileNode b)" by (simp split: if_splits)
          with d show ?thesis by simp
        next
          case (LinkNode t)
          with Some have d: "map_of f (cur @ [c]) = Some (LinkNode t)" by simp
          show ?thesis
          proof (cases "cs = [] \<and> \<not> follow")
            case True
            from res have "r = Found (cur @ [c]) (LinkNode t)"
              unfolding namei_link_last[OF dot up d True] by simp
            then show ?thesis by simp
          next
            case False
            show ?thesis
            proof (cases fuel)
              case 0
              from res show ?thesis
                unfolding 0 namei_link_loop[OF dot up d False] by simp
            next
              case (Suc m)
              from res have "namei m f follow (if fst t then [] else cur) (snd t @ cs) = Inr r"
                unfolding Suc namei_link_follow[OF dot up d False] .
              from "2.IH"(4)[OF dot up Some LinkNode False Suc this] show ?thesis .
            qed
          qed
        qed
      qed
    qed
  qed
qed

lemma namei_after_write:
  "namei n f fl cur es = Inr r \<Longrightarrow>
   \<forall>p. p \<noteq> k \<longrightarrow> map_of f' p = map_of f p \<Longrightarrow>
   map_of f k = None \<or> (\<exists>c. map_of f k = Some (FileNode c)) \<Longrightarrow>
   map_of f' k = Some (FileNode b) \<Longrightarrow>
   r = Missing k \<or> (\<exists>c. r = Found k (FileNode c)) \<Longrightarrow>
   namei n f' fl cur es = Inr (Found k (FileNode b))"
proof (induction n f fl cur es rule: namei.induct)
  case (1 fuel f follow cur)
  then show ?case by auto
next
  case (2 fuel f follow cur c cs)
  note res = "2.prems"(1) and same = "2.prems"(2) and old = "2.prems"(3) and new = "2.prems"(4)
    and r = "2.prems"(5)
  show ?case
  proof (cases "c = [] \<or> c = ''.''")
    case True
    from res have "namei fuel f follow cur cs = Inr r"
      unfolding namei_skip[OF True] .
    from "2.IH"(1)[OF True this same old new r] show ?thesis
      unfolding namei_skip[OF True] .
  next
    case dot: False
    show ?thesis
    proof (cases "c = ''..''")
      case True
      from res have "namei fuel f follow (butlast cur) cs = Inr r"
        unfolding namei_up[OF True] .
      from "2.IH"(2)[OF dot True this same old new r] show ?thesis
        unfolding namei_up[OF True] .
    next
      case up: False
      have at_k: ?thesis if "cs = []" "cur @ [c] = k"
        using namei_file[OF dot up, of f' cur b fuel follow cs] new that by simp
      show ?thesis
      proof (cases "map_of f (cur @ [c])")
        case None
        from res have "(if cs = [] then Inr (Missing (cur @ [c])) else Inl ENOENT) = Inr r"
          unfolding namei_missing[OF dot up None] .
        with r have "cs = []" "cur @ [c] = k"
          by (auto split: if_splits)
        then show ?thesis by (rule at_k)
      next
        case (Some nd)
        show ?thesis
        proof (cases nd)
          case DirNode
          with Some have d: "map_of f (cur @ [c]) = Some DirNode" by simp
          with old have "cur @ [c] \<noteq> k" by auto
          with same d have d': "map_of f' (cur @ [c]) = Some DirNode" by simp
          from res have "namei fuel f follow (cur @ [c]) cs = Inr r"
            unfolding namei_dir[OF dot up d] .
          from "2.IH"(3)[OF dot up Some DirNode this same old new r] show ?thesis
            unfolding namei_dir[OF dot up d'] .
        next
          case (FileNode b')
          with Some have d: "map_of f (cur @ [c]) = Some (FileNode b')" by simp
          from res have "(if cs = [] then Inr (Found (cur @ [c]) (FileNode b')) else Inl ENOTDIR) = Inr r"
            unfolding namei_file[OF dot up d] .
          with r have "cs = []" "cur @ [c] = k"
            by (auto split: if_splits)
          then show ?thesis by (rule at_k)
        next
          case (LinkNode t)
          with Some have d: "map_of f (cur @ [c]) = Some (LinkNode t)" by simp
          with old have "cur @ [c] \<noteq> k" by auto
          with same d have d': "map_of f' (cur @ [c]) = Some (LinkNode t)" by simp
          show ?thesis
          proof (cases "cs = [] \<and> \<not> follow")
            case True
            from res have "r = Found (cur @ [c]) (LinkNode t)"
              unfolding namei_link_last[OF dot up d True] by simp
            with r show ?thesis by simp
          next
            case False
            show ?thesis
            proof (cases fuel)
              case 0
              from res show ?thesis
                unfolding 0 namei_link_loop[OF dot up d False] by simp
            next
              case (Suc m)
              from res have "namei m f follow (if fst t then [] else cur) (snd t @ cs) = Inr r"
                unfolding Suc namei_link_follow[OF dot up d False] .
              from "2.IH"(4)[OF dot up Some LinkNode False Suc this same old new r] show ?thesis
                unfolding Suc namei_link_follow[OF dot up d' False] .
            qed
          qed
        qed
      qed
    qed
  qed
qed

lemma resolve_after_write:
  assumes res: "resolve w f True p = Inr r"
    and r: "r = Missing k \<or> (\<exists>c. r = Found k (FileNode c))"
    and same: "\<forall>q. q \<noteq> k \<longrightarrow> map_of f' q = map_of f q"
    and new: "map_of f' k = Some (FileNode b)"
  shows "resolve w f' True p = Inr (Found k (FileNode b))"
proof -
  from res obtain cur where n: "namei MAXSYMLINKS f True cur (snd p) = Inr r"
    and cur: "resolve w f True p = namei MAXSYMLINKS f True cur (snd p)"
      "p \<noteq> empty_path" "fst p \<and> cur = [] \<or> \<not> fst p \<and> cur = cwd w \<and> (cwd w = [] \<or> map_of f (cwd w) = Some DirNode)"
    by (auto simp: resolve_def split: if_splits)
  from namei_kind[OF n] r have old: "map_of f k = None \<or> (\<exists>c. map_of f k = Some (FileNode c))"
    by auto
  have "namei MAXSYMLINKS f' True cur (snd p) = Inr (Found k (FileNode b))"
    using n same old new r by (rule namei_after_write)
  moreover have "map_of f' (cwd w) = Some DirNode" if "map_of f (cwd w) = Some DirNode"
  proof -
    from that old have "cwd w \<noteq> k" by auto
    with same that show ?thesis by simp
  qed
  ultimately show ?thesis
    using cur(2,3) by (auto simp: resolve_def)
qed

lemma download_then_read:
  assumes "download w f url outPath contentType = (None, f1)"
  shows "\<exists>body. http_get w url = Response 200 contentType body None \<and>
           read_file w f1 outPath = Inr body"
proof -
  from assms obtain body r k where
    resp: "http_get w url = Response 200 contentType body None"
    and res: "resolve w f True outPath = Inr r"
    and r: "r = Missing k \<or> (\<exists>c. r = Found k (FileNode c))"
    and f1: "f1 = AList.update k (FileNode body) (AList.update k (FileNode []) f)"
    by (auto simp: download_def os_OpenFile_def
        split: if_splits http_result.splits option.splits sum.splits prod.splits
          found.splits node.splits)
  have "\<forall>q. q \<noteq> k \<longrightarrow> map_of f1 q = map_of f q" "map_of f1 k = Some (FileNode body)"
    unfolding f1 by (simp_all add: update_conv')
  with res r have "resolve w f1 True outPath = Inr (Found k (FileNode body))"
    by (rule resolve_after_write)
  then have "read_file w f1 outPath = Inr body"
    by (simp add: read_file_def)
  with resp show ?thesis by blast
qed

text \<open>\<open>link\<close> fails when anything is at the place of the namespace directory.\<close>

lemma link_into_existing_directory:
  assumes "Path w namespace command version = (pv, None)"
    and "resolve w f False (Dir pv) = Inr (Found k n)"
  shows "link w f namespace command version csum =
           (Return (Some (PathError ''mkdir'' (Dir pv) EEXIST)), f)"
  using assms by (simp add: link_def os_Mkdir_def)

section \<open>Facts about version strings\<close>

lemma slash_not_id: "\<not> is_id_char (CHR ''/'')" "\<not> is_digit (CHR ''/'')"
  by (simp_all add: is_id_char_def is_digit_def)

lemma split_dot_chars:
  "c \<in> set s \<Longrightarrow> c = CHR ''.'' \<or> (\<exists>i \<in> set (split_dot s). c \<in> set i)"
proof (induction s)
  case Nil
  then show ?case by simp
next
  case (Cons a s)
  then show ?case
    by (cases "split_dot s") (auto split: if_splits)
qed

lemma valid_ids_no_slash: "valid_ids s \<Longrightarrow> CHR ''/'' \<notin> set s"
  using split_dot_chars[of "CHR ''/''" s] slash_not_id(1) by (auto simp: valid_ids_def)

lemma digits_no_slash: "CHR ''/'' \<notin> set (takeWhile is_digit s)"
  using slash_not_id(2) by (auto dest: set_takeWhileD)

lemma slash_after_digits: "CHR ''/'' \<in> set s \<Longrightarrow> CHR ''/'' \<in> set (dropWhile is_digit s)"
  using digits_no_slash[of s] set_append[of "takeWhile is_digit s" "dropWhile is_digit s"]
  by simp

lemma dot_segment_slash:
  assumes "CHR ''/'' \<in> set s"
  shows "CHR ''/'' \<in> set (snd (dot_segment s))"
proof (cases s)
  case Nil
  with assms show ?thesis by simp
next
  case (Cons c cs)
  show ?thesis
  proof (cases "c = CHR ''.'' \<and> takeWhile is_digit cs \<noteq> []")
    case True
    with Cons assms have "CHR ''/'' \<in> set cs" by auto
    then have "CHR ''/'' \<in> set (dropWhile is_digit cs)" by (rule slash_after_digits)
    with True Cons show ?thesis by (simp add: dot_segment_def)
  next
    case False
    with Cons assms show ?thesis by (auto simp: dot_segment_def)
  qed
qed

lemma tail_groups_slash:
  assumes "CHR ''/'' \<in> set s"
  shows "tail_groups s = None"
proof (cases s)
  case Nil
  with assms show ?thesis by simp
next
  case (Cons c cs)
  show ?thesis
  proof (cases "c = CHR ''-''")
    case dash: True
    let ?p = "takeWhile (\<lambda>x. x \<noteq> CHR ''+'') cs" and ?r = "dropWhile (\<lambda>x. x \<noteq> CHR ''+'') cs"
    from Cons assms dash have "CHR ''/'' \<in> set cs" by auto
    then have "CHR ''/'' \<in> set ?p \<or> CHR ''/'' \<in> set ?r"
      using set_append[of ?p ?r] by simp
    then show ?thesis
    proof
      assume "CHR ''/'' \<in> set ?p"
      then have "\<not> valid_ids ?p" using valid_ids_no_slash by blast
      with Cons dash show ?thesis by (simp add: tail_groups_def)
    next
      assume r: "CHR ''/'' \<in> set ?r"
      then obtain d ds where ds: "?r = d # ds" by (cases ?r) auto
      show ?thesis
      proof (cases "d = CHR ''+''")
        case True
        with r ds have "CHR ''/'' \<in> set ds" by auto
        then have "\<not> valid_ids ds" using valid_ids_no_slash by blast
        with Cons dash ds show ?thesis by (simp add: tail_groups_def)
      next
        case False
        with Cons dash ds show ?thesis by (simp add: tail_groups_def)
      qed
    qed
  next
    case nodash: False
    show ?thesis
    proof (cases "c = CHR ''+''")
      case True
      with Cons assms have "CHR ''/'' \<in> set cs" by auto
      then have "\<not> valid_ids cs" using valid_ids_no_slash by blast
      with Cons nodash True show ?thesis by (simp add: tail_groups_def)
    next
      case False
      with Cons nodash show ?thesis by (simp add: tail_groups_def)
    qed
  qed
qed

lemma NewVersion_no_slash:
  assumes "NewVersion v \<noteq> None"
  shows "CHR ''/'' \<notin> set v"
proof
  assume sl: "CHR ''/'' \<in> set v"
  define s where "s = (case v of c # cs \<Rightarrow> (if c = CHR ''v'' then cs else v) | [] \<Rightarrow> v)"
  have "CHR ''/'' \<in> set s"
    using sl by (cases v) (auto simp: s_def)
  then have "CHR ''/'' \<in> set (dropWhile is_digit s)" by (rule slash_after_digits)
  then have "CHR ''/'' \<in> set (snd (dot_segment (dropWhile is_digit s)))" by (rule dot_segment_slash)
  then have "CHR ''/'' \<in> set (snd (dot_segment (snd (dot_segment (dropWhile is_digit s)))))"
    by (rule dot_segment_slash)
  then have "tail_groups (snd (dot_segment (snd (dot_segment (dropWhile is_digit s))))) = None"
    by (rule tail_groups_slash)
  then have "NewVersion v = None"
    unfolding NewVersion_def s_def[symmetric] Let_def by (simp add: case_prod_beta)
  with assms show False by simp
qed

lemma versioned_name_without_up:
  assumes "''..'' \<notin> set (split_sep command)" "NewVersion version \<noteq> None"
  shows "''..'' \<notin> set (split_sep (command @ ''-'' @ version))"
proof
  assume up: "''..'' \<in> set (split_sep (command @ ''-'' @ version))"
  have "CHR ''/'' \<notin> set (''-'' @ version)"
    using NewVersion_no_slash[OF assms(2)] by simp
  then have "split_sep (command @ ''-'' @ version) =
      butlast (split_sep command) @ [last (split_sep command) @ ''-'' @ version]"
    by (rule split_sep_append_plain)
  with up have "''..'' \<in> set (butlast (split_sep command)) \<or>
      ''..'' = last (split_sep command) @ ''-'' @ version"
    by auto
  then show False
  proof
    assume "''..'' \<in> set (butlast (split_sep command))"
    with assms(1) show False by (auto dest: in_set_butlastD)
  next
    assume "''..'' = last (split_sep command) @ ''-'' @ version"
    then have "set ''..'' = set (last (split_sep command) @ ''-'' @ version)" by (rule arg_cong)
    then show False by auto
  qed
qed

section \<open>The loop of isNewer\<close>

lemma isNewer_loop_no_entry:
  "\<forall>e \<in> set files. snd e \<or> \<not> HasPrefix (fst e) (command @ ''-'') \<Longrightarrow>
   isNewer_loop command files highest = Inr highest"
  by (induction files arbitrary: highest) auto

lemma isNewer_loop_next:
  assumes "\<not> (\<not> snd e \<and> HasPrefix (fst e) (command @ ''-'') \<and>
             NewVersion (TrimPrefix (fst e) (command @ ''-'')) = None)"
  shows "\<exists>h. isNewer_loop command (e # es) highest = isNewer_loop command es h"
  using assms by (auto split: option.splits)

lemma isNewer_loop_unparseable:
  assumes "(name, False) \<in> set files" "HasPrefix name (command @ ''-'')"
    "NewVersion (TrimPrefix name (command @ ''-'')) = None"
  shows "\<exists>bad. (bad, False) \<in> set files \<and> HasPrefix bad (command @ ''-'') \<and>
           NewVersion (TrimPrefix bad (command @ ''-'')) = None \<and>
           isNewer_loop command files highest = Inl (unparseable bad)"
  using assms
proof (induction files arbitrary: highest)
  case Nil
  then show ?case by simp
next
  case (Cons e es)
  show ?case
  proof (cases "\<not> snd e \<and> HasPrefix (fst e) (command @ ''-'') \<and>
                NewVersion (TrimPrefix (fst e) (command @ ''-'')) = None")
    case True
    then have "isNewer_loop command (e # es) highest = Inl (unparseable (fst e))"
      by (simp add: unparseable_def)
    moreover have "(fst e, False) \<in> set (e # es)"
      using True by (cases e) simp
    ultimately show ?thesis using True by blast
  next
    case False
    with Cons.prems have "(name, False) \<in> set es" by auto
    moreover obtain h where "isNewer_loop command (e # es) highest = isNewer_loop command es h"
      using isNewer_loop_next[OF False] by blast
    ultimately show ?thesis
      using Cons.IH[of h] Cons.prems(2,3) by auto
  qed
qed

text \<open>Without a matching entry \<open>highest\<close> is still nil after the loop.\<close>

lemma isNewer_panics_without_entry:
  assumes "NewVersion versionStr \<noteq> None"
    and "os_ReadDir w f (Join [dotfilesPath w, of_string ''binr'', of_string namespace]) = Inr files"
    and "\<forall>e \<in> set files. snd e \<or> \<not> HasPrefix (fst e) (command @ ''-'')"
  shows "isNewer w f namespace command versionStr = Panic"
proof -
  from assms(3) have "isNewer_loop command files None = Inr None"
    by (rule isNewer_loop_no_entry)
  with assms(1,2) show ?thesis
    by (auto simp: isNewer_def)
qed

section \<open>Path without a home directory\<close>

lemma Path_without_home:
  assumes h: "UserHomeDir w = None" "XDG_CONFIG_HOME w = []"
    and wd: "Getwd w = Some wd"
    and n: "namespace \<noteq> []" "''..'' \<notin> set (split_sep namespace)"
    and nm: "name \<noteq> []" "''..'' \<notin> set (split_sep name)"
  shows "Abs w (Join [dotfilesPath w, of_string ''binr'', of_string namespace, of_string name]) =
         ((True, snd (Clean (True, wd)) @ ''binr'' # elements namespace @ elements name), None)"
proof -
  let ?ok = "\<lambda>c. c \<noteq> [] \<and> c \<noteq> ''.''"
  let ?E = "''binr'' # elements namespace @ elements name"
  have d: "dotfilesPath w = (False, [''.''])"
    using h by (simp add: dotfilesPath_def of_string_def Let_def)
  have "Join [dotfilesPath w, of_string ''binr'', of_string namespace, of_string name] =
      Clean (False, ''.'' # ''binr'' # split_sep namespace @ split_sep name)"
    unfolding d by (simp add: Join_def empty_path_def snd_of_string)
  also have "\<dots> = (False, ?E)"
    using n(2) nm(2)
    clean_without_up[of "''.'' # ''binr'' # split_sep namespace @ split_sep name" False "[]"]
    by (simp add: Clean_def elements_def)
  finally have J: "Join [dotfilesPath w, of_string ''binr'', of_string namespace, of_string name] =
      (False, ?E)" .
  have up: "''..'' \<notin> set ?E"
    using n(2) nm(2) by (auto simp: elements_def)
  have "filter ?ok ?E = ?E"
    by (simp add: elements_def)
  then have "foldl (clean_step True) (foldl (clean_step True) [] wd) ?E =
      foldl (clean_step True) [] wd @ ?E"
    using clean_without_up[OF up, of True "foldl (clean_step True) [] wd"] by simp
  then have "Clean (True, wd @ ?E) = (True, snd (Clean (True, wd)) @ ?E)"
    by (simp add: Clean_def)
  moreover have "Join [(True, wd), (False, ?E)] = Clean (True, wd @ ?E)"
    by (simp add: Join_def empty_path_def)
  ultimately show ?thesis
    unfolding J using wd by (simp add: Abs_def)
qed

section \<open>Claims\<close>

subsection \<open>C1\<close>

text \<open>
  C1. Statement: once \<open>cache\<close> has been called and has returned a cleanup
  callback, \<open>Get\<close> calls it before returning, whether the cache step or a later
  step failed or not.

  \<open>Get\<close> registers the callback with \<open>defer\<close> only after it has tested the
  error of \<open>cache\<close>. When \<open>cache\<close> fails, here on a checksum mismatch, it
  returns the callback together with the error, \<open>Get\<close> returns without calling
  it, and the partial download that the callback would have removed stays on
  disk.
\<close>

theorem Get_returns_without_cleanup_when_cache_fails:
  "cache example_world fs_base ''http://h/v1.2.0/bin'' ''h:other'' =
     (([], Some (True, [''x'', ''binr'', ''.cache'', ''t1.partial'']), Some mismatch), fs_partial) \<and>
   Get example_world [] ''myapp'' ''testbin'' ''v1.2.0'' (Some example_source_badsum) [] =
     (Return ((True, [''x'', ''binr'', ''myapp'', ''testbin-v1.2.0'']), Some mismatch), fs_partial) \<and>
   done_cleanup example_world (True, [''x'', ''binr'', ''.cache'', ''t1.partial'']) fs_partial = fs_base"
  by code_simp

text \<open>The temporary file is still there when \<open>Get\<close> has returned.\<close>

theorem Get_leaves_partial_download:
  "map_of (snd (Get example_world [] ''myapp'' ''testbin'' ''v1.2.0'' (Some example_source_badsum) []))
     [''x'', ''binr'', ''.cache'', ''t1.partial''] = Some (FileNode ''B120'')"
  using Get_returns_without_cleanup_when_cache_fails by (simp add: fs_partial_def)

subsection \<open>C2\<close>

text \<open>
  C2. Statement: with a non-empty expected checksum whose cache entry exists,
  \<open>cache\<close> returns at once with that checksum as the digest, a cleanup that can
  safely be called, and no error, without network access.

  \<open>cache\<close> leaves by a bare \<open>return\<close> before any of its named results is
  assigned: the digest is the empty string and the cleanup is the nil function.
  \<open>Get\<close> then links the command to \<open>../.cache\<close> and panics when the deferred
  nil function is called.
\<close>

theorem cache_hit_returns_zero_values:
  "cached example_world fs_installed ''h:B120'' \<and>
   cache example_world fs_installed ''http://h/v1.2.0/bin'' ''h:B120'' = (([], None, None), fs_installed) \<and>
   fst (Get later_world fs_installed ''other'' ''testbin'' ''v1.2.0'' (Some example_source_sum) []) = Panic \<and>
   map_of (snd (Get later_world fs_installed ''other'' ''testbin'' ''v1.2.0'' (Some example_source_sum) []))
     [''x'', ''binr'', ''other'', ''testbin-v1.2.0''] = Some (LinkNode (False, [''..'', ''.cache'']))"
  by code_simp

text \<open>The digest returned on a hit is not the checksum, and the cleanup is nil.\<close>

theorem cache_hit_digest_is_not_the_checksum:
  "fst (fst (cache example_world fs_installed ''http://h/v1.2.0/bin'' ''h:B120'')) \<noteq> ''h:B120'' \<and>
   fst (snd (fst (cache example_world fs_installed ''http://h/v1.2.0/bin'' ''h:B120''))) = None"
  using cache_hit_returns_zero_values by simp

subsection \<open>C3\<close>

text \<open>
  C3. Statement: \<open>link\<close> creates the parent directory of the versioned link if it
  is missing and ignores "already exists", so that linking a second version of a
  command into an existing namespace directory does not fail at that step.

  \<open>link\<close> calls \<open>os.Mkdir\<close> and returns its error: with testbin v1.2.0
  installed, linking v1.0.0 fails with "file exists" for the namespace directory
  and changes nothing.
\<close>

theorem link_second_version_fails_at_Mkdir:
  "link example_world fs_installed ''myapp'' ''testbin'' ''v1.0.0'' ''h:B100'' =
     (Return (Some (PathError ''mkdir'' (True, [''x'', ''binr'', ''myapp'']) EEXIST)), fs_installed)"
  by code_simp

text \<open>The call returns an error and the versioned link does not exist afterwards.\<close>

theorem link_second_version_no_link:
  "fst (link example_world fs_installed ''myapp'' ''testbin'' ''v1.0.0'' ''h:B100'') \<noteq> Return None \<and>
   map_of (snd (link example_world fs_installed ''myapp'' ''testbin'' ''v1.0.0'' ''h:B100''))
     [''x'', ''binr'', ''myapp'', ''testbin-v1.0.0''] = None"
  using link_second_version_fails_at_Mkdir by (simp add: fs_installed_def)

subsection \<open>C4\<close>

text \<open>
  C4. Statement: when the version linked is the newest and the unversioned link
  already exists, \<open>link\<close> replaces the unversioned link, so that it points at
  \<open>../.cache/<digest>\<close>, and succeeds.

  \<open>link\<close> does not get that far when the link exists (the namespace directory
  then exists too, and \<open>os.Mkdir\<close> fails first), and its last step is a plain
  \<open>os.Symlink\<close>, which replaces nothing: in the state described
  (v2.0.0 linked and newest, \<open>testbin\<close> pointing at v1.2.0) it fails with
  "file exists".
\<close>

theorem link_does_not_replace_unversioned_link:
  "link example_world fs_installed ''myapp'' ''testbin'' ''v2.0.0'' ''h:B200'' =
     (Return (Some (PathError ''mkdir'' (True, [''x'', ''binr'', ''myapp'']) EEXIST)), fs_installed) \<and>
   isNewer example_world fs_two_versions ''myapp'' ''testbin'' ''v2.0.0'' = Return (True, None) \<and>
   os_Symlink example_world fs_two_versions (False, [''..'', ''.cache'', ''h:B200''])
       (True, [''x'', ''binr'', ''myapp'', ''testbin'']) =
     (Some (LinkError ''symlink'' (False, [''..'', ''.cache'', ''h:B200''])
              (True, [''x'', ''binr'', ''myapp'', ''testbin'']) EEXIST), fs_two_versions)"
  by code_simp

text \<open>After the call the unversioned link still has its old target.\<close>

theorem unversioned_link_keeps_old_target:
  "map_of (snd (link example_world fs_installed ''myapp'' ''testbin'' ''v2.0.0'' ''h:B200''))
     [''x'', ''binr'', ''myapp'', ''testbin''] = Some (LinkNode (False, [''..'', ''.cache'', ''h:B120'']))"
  using link_does_not_replace_unversioned_link by (simp add: fs_installed_def)

subsection \<open>C5\<close>

text \<open>
  C5. Statement: over every sequence of successful installs of distinct versions of
  a command in a namespace, the unversioned link targets the entry of the highest
  version linked so far; installing v1.2.0 and then v1.0.0 leaves it at v1.2.0,
  whatever the order.

  No second install of a command into a namespace succeeds: after v1.2.0,
  \<open>Get\<close> for v1.0.0 downloads and stores the content, then fails in \<open>link\<close>
  at \<open>os.Mkdir\<close>; in the other order \<open>Get\<close> for v1.2.0 fails in the same
  way, and the unversioned link stays at v1.0.0.
\<close>

theorem second_install_fails:
  "Get example_world [] ''myapp'' ''testbin'' ''v1.2.0'' (Some example_source) [] =
     (Return ((True, [''x'', ''binr'', ''myapp'', ''testbin-v1.2.0'']), None), fs_installed) \<and>
   Get later_world fs_installed ''myapp'' ''testbin'' ''v1.0.0'' (Some example_source) [] =
     (Return ((True, [''x'', ''binr'', ''myapp'', ''testbin-v1.0.0'']),
              Some (PathError ''mkdir'' (True, [''x'', ''binr'', ''myapp'']) EEXIST)),
      fs_installed @ [([''x'', ''binr'', ''.cache'', ''h:B100''], FileNode ''B100'')]) \<and>
   Get example_world [] ''myapp'' ''testbin'' ''v1.0.0'' (Some example_source) [] =
     (Return ((True, [''x'', ''binr'', ''myapp'', ''testbin-v1.0.0'']), None), fs_installed_old) \<and>
   Get later_world fs_installed_old ''myapp'' ''testbin'' ''v1.2.0'' (Some example_source) [] =
     (Return ((True, [''x'', ''binr'', ''myapp'', ''testbin-v1.2.0'']),
              Some (PathError ''mkdir'' (True, [''x'', ''binr'', ''myapp'']) EEXIST)),
      fs_installed_old @ [([''x'', ''binr'', ''.cache'', ''h:B120''], FileNode ''B120'')])"
  by code_simp

text \<open>The version asked for second is not linked, in either order.\<close>

theorem second_install_leaves_no_link:
  "map_of (snd (Get later_world fs_installed ''myapp'' ''testbin'' ''v1.0.0'' (Some example_source) []))
     [''x'', ''binr'', ''myapp'', ''testbin-v1.0.0''] = None \<and>
   map_of (snd (Get later_world fs_installed_old ''myapp'' ''testbin'' ''v1.2.0'' (Some example_source) []))
     [''x'', ''binr'', ''myapp'', ''testbin-v1.2.0''] = None \<and>
   map_of (snd (Get later_world fs_installed_old ''myapp'' ''testbin'' ''v1.2.0'' (Some example_source) []))
     [''x'', ''binr'', ''myapp'', ''testbin''] = Some (LinkNode (False, [''..'', ''.cache'', ''h:B100'']))"
  using second_install_fails by (simp add: fs_installed_def fs_installed_old_def)

subsection \<open>C6\<close>

text \<open>
  C6. Statement: a link attempt fails with an error that names the offending file
  when the namespace directory holds a non-directory entry \<open><command>-<suffix>\<close>
  whose suffix is not a semver.

  \<open>isNewer\<close> has that error, but \<open>link\<close> does not reach \<open>isNewer\<close>: the
  namespace directory exists, so \<open>os.Mkdir\<close> fails first, and the error that is
  returned names the directory, not the file.
\<close>

theorem link_reports_Mkdir_not_the_stray_file:
  "link example_world fs_stray ''myapp'' ''testbin'' ''v1.3.0'' ''h:B130'' =
     (Return (Some (PathError ''mkdir'' (True, [''x'', ''binr'', ''myapp'']) EEXIST)), fs_stray) \<and>
   isNewer example_world fs_stray ''myapp'' ''testbin'' ''v1.3.0'' =
     Return (False, Some (unparseable ''testbin-latest''))"
  by code_simp

text \<open>The error of \<open>link\<close> is not the one that names the file.\<close>

theorem link_error_is_not_unparseable:
  "fst (link example_world fs_stray ''myapp'' ''testbin'' ''v1.3.0'' ''h:B130'') \<noteq>
     Return (Some (unparseable ''testbin-latest''))"
  using link_reports_Mkdir_not_the_stray_file by (simp add: unparseable_def)

subsection \<open>C7\<close>

text \<open>
  C7. When the checksum that was fetched is not empty and differs from the
  digest of the bytes that were downloaded, \<open>Get\<close> fails with the checksum
  mismatch error, and the file system is the one the download left: the
  temporary file has not been renamed (it still holds the bytes), and no link
  exists that did not exist before the call.
\<close>

theorem Get_checksum_mismatch:
  assumes args: "namespace \<noteq> []" "command \<noteq> []" "version \<noteq> []" "NewVersion version \<noteq> None"
      "\<not> update (newConfig options)"
    and su: "setup_cache w f = (None, f0)"
    and path: "Path w namespace command version = (path, None)"
    and absent: "\<not> got w f0 path"
    and src: "source version (GOOS w) (GOARCH w) = (sourceURL, sumURL, None)"
    and expected: "getChecksum w sumURL = (expected, None)" "expected \<noteq> []"
    and miss: "\<not> cached w f0 expected"
    and dl: "download w f0 sourceURL (Join [cachePath w, of_string (Now w @ ''.partial'')])
               ''application/octet-stream'' = (None, f1)"
    and resp: "http_get w sourceURL = Response 200 ''application/octet-stream'' bytes None"
    and differs: "sha256_hex w bytes \<noteq> expected"
  shows "Get w f namespace command version (Some source) options = (Return (path, Some mismatch), f1) \<and>
         read_file w f1 (Join [cachePath w, of_string (Now w @ ''.partial'')]) = Inr bytes \<and>
         (\<forall>k t. map_of f1 k = Some (LinkNode t) \<longrightarrow> map_of f k = Some (LinkNode t))"
proof -
  have bytes: "read_file w f1 (Join [cachePath w, of_string (Now w @ ''.partial'')]) = Inr bytes"
    using download_then_read[OF dl] resp by auto
  have v: "verify w f1 (Join [cachePath w, of_string (Now w @ ''.partial'')]) expected = Some mismatch"
    using bytes differs by (simp add: verify_def calculateChecksum_def mismatch_def)
  have c: "cache w f0 sourceURL expected =
      (([], Some (Join [cachePath w, of_string (Now w @ ''.partial'')]), Some mismatch), f1)"
    using miss dl v expected(2) by (simp add: cache_def Let_def)
  have "Get w f namespace command version (Some source) options = (Return (path, Some mismatch), f1)"
    using args su path absent src expected(1) c by (auto simp: Get_def Let_def)
  moreover have "map_of f k = Some (LinkNode t)" if "map_of f1 k = Some (LinkNode t)" for k t
    using setup_cache_keeps_links[OF su] download_keeps_links[OF dl that] by blast
  ultimately show ?thesis using bytes by blast
qed

text \<open>An instance: the checksum URL serves the digest of other content.\<close>

theorem Get_checksum_mismatch_example:
  "Get example_world [] ''myapp'' ''testbin'' ''v1.2.0'' (Some example_source_badsum) [] =
     (Return ((True, [''x'', ''binr'', ''myapp'', ''testbin-v1.2.0'']), Some mismatch), fs_partial) \<and>
   map_of fs_partial [''x'', ''binr'', ''myapp'', ''testbin-v1.2.0''] = None"
proof -
  have 1: "''myapp'' \<noteq> []" "''testbin'' \<noteq> []" "''v1.2.0'' \<noteq> []" by simp_all
  have 2: "NewVersion ''v1.2.0'' \<noteq> None" by code_simp
  have 3: "\<not> update (newConfig [])" by (simp add: newConfig_def)
  have 4: "setup_cache example_world [] = (None, fs_base)" by code_simp
  have 5: "Path example_world ''myapp'' ''testbin'' ''v1.2.0'' = ((True, [''x'', ''binr'', ''myapp'', ''testbin-v1.2.0'']), None)"
    by code_simp
  have 6: "\<not> got example_world fs_base (True, [''x'', ''binr'', ''myapp'', ''testbin-v1.2.0''])" by code_simp
  have 7: "example_source_badsum ''v1.2.0'' (GOOS example_world) (GOARCH example_world) =
      (''http://h/v1.2.0/bin'', ''http://h/bad/sum'', None)" by code_simp
  have 8: "getChecksum example_world ''http://h/bad/sum'' = (''h:other'', None)" "''h:other'' \<noteq> []"
    by code_simp+
  have 9: "\<not> cached example_world fs_base ''h:other''" by code_simp
  have 10: "download example_world fs_base ''http://h/v1.2.0/bin''
      (Join [cachePath example_world, of_string (Now example_world @ ''.partial'')])
      ''application/octet-stream'' = (None, fs_partial)" by code_simp
  have 11: "http_get example_world ''http://h/v1.2.0/bin'' =
      Response 200 ''application/octet-stream'' ''B120'' None"
    by code_simp
  have 12: "sha256_hex example_world ''B120'' \<noteq> ''h:other''" by code_simp
  from Get_checksum_mismatch[where source = example_source_badsum, OF 1 2 3 4 5 6 7 8 9 10 11 12]
  show ?thesis by (simp add: fs_partial_def)
qed

subsection \<open>C8\<close>

text \<open>
  C8. Statement: for every non-empty namespace and command and every empty or
  valid version, without a home directory and without \<open>XDG_CONFIG_HOME\<close>,
  \<open>Path\<close> returns an absolute path rooted at the working directory, and no
  error.

  This holds when the working directory is known and neither the namespace nor
  the command has a \<open>..\<close> element: the path is then the working directory,
  \<open>binr\<close>, the elements of the namespace and those of the link name.
\<close>

theorem Path_rooted_at_working_directory:
  assumes "UserHomeDir w = None" "XDG_CONFIG_HOME w = []"
    and "Getwd w = Some wd"
    and "namespace \<noteq> []" "command \<noteq> []" "version = [] \<or> NewVersion version \<noteq> None"
    and "''..'' \<notin> set (split_sep namespace)" "''..'' \<notin> set (split_sep command)"
  shows "Path w namespace command version =
           ((True, snd (Clean (True, wd)) @ ''binr'' # elements namespace @
                   elements (if version = [] then command else command @ ''-'' @ version)), None)"
proof (cases "version = []")
  case True
  with assms Path_without_home[of w wd namespace command] show ?thesis
    by (simp add: Path_def)
next
  case False
  with assms have v: "NewVersion version \<noteq> None" by simp
  have "''..'' \<notin> set (split_sep (command @ ''-'' @ version))"
    using assms(8) v by (rule versioned_name_without_up)
  with assms False v Path_without_home[of w wd namespace "command @ ''-'' @ version"] show ?thesis
    by (simp add: Path_def)
qed

text \<open>An instance, the first row of the table of \<open>TestPath\<close> with a version.\<close>

theorem Path_rooted_example:
  "Path homeless_world ''myapp'' ''mybin'' ''v1.0.0'' =
     ((True, [''w'', ''binr'', ''myapp'', ''mybin-v1.0.0'']), None)"
proof -
  have 1: "UserHomeDir homeless_world = None" "XDG_CONFIG_HOME homeless_world = []"
    "Getwd homeless_world = Some [''w'']"
    by code_simp+
  have 2: "''myapp'' \<noteq> []" "''mybin'' \<noteq> []" by simp_all
  have 3: "''v1.0.0'' = [] \<or> NewVersion ''v1.0.0'' \<noteq> None" by code_simp
  have 4: "''..'' \<notin> set (split_sep ''myapp'')" "''..'' \<notin> set (split_sep ''mybin'')" by code_simp+
  have 5: "snd (Clean (True, [''w''])) @ ''binr'' # elements ''myapp'' @
      elements (if ''v1.0.0'' = [] then ''mybin'' else ''mybin'' @ ''-'' @ ''v1.0.0'') =
      [''w'', ''binr'', ''myapp'', ''mybin-v1.0.0'']"
    by code_simp
  from Path_rooted_at_working_directory[OF 1 2 3 4] show ?thesis
    unfolding 5 .
qed

text \<open>
  As stated this fails: \<open>filepath.Join\<close> cleans the path, so a namespace
  \<open>../..\<close> leads out of the working directory \<open>/w\<close>; and \<open>filepath.Abs\<close>
  fails, and \<open>Path\<close> with it, when the working directory cannot be determined.
\<close>

theorem Path_outside_working_directory:
  "Getwd homeless_world = Some [''w''] \<and>
   Path homeless_world ''../..'' ''mybin'' [] = ((True, [''mybin'']), None) \<and>
   render (fst (Path homeless_world ''../..'' ''mybin'' [])) = ''/mybin'' \<and>
   snd (Path (homeless_world\<lparr>Getwd := None\<rparr>) ''myapp'' ''mybin'' []) = Some (LibError ''getwd'')"
  by code_simp

subsection \<open>C9\<close>

text \<open>
  C9. Statement: when the namespace directory holds a well-formed link of another
  command whose name begins with \<open><command>-\<close> (such as \<open>foo-bar\<close> or
  \<open>foo-bar-v1.0.0\<close> while linking \<open>foo\<close>), \<open>isNewer\<close>, and hence \<open>link\<close> and
  \<open>Get\<close>, fail with the error for a file name that cannot be parsed.

  This holds of \<open>isNewer\<close>, for entries whose suffix is not a semver: when the
  listing of the namespace directory has a non-directory entry with the prefix
  whose suffix does not parse, \<open>isNewer\<close> returns that error, naming such an
  entry.
\<close>

theorem isNewer_unparseable_entry:
  assumes "NewVersion versionStr \<noteq> None"
    and "os_ReadDir w f (Join [dotfilesPath w, of_string ''binr'', of_string namespace]) = Inr files"
    and "(name, False) \<in> set files" "HasPrefix name (command @ ''-'')"
    and "NewVersion (TrimPrefix name (command @ ''-'')) = None"
  shows "\<exists>bad. (bad, False) \<in> set files \<and> HasPrefix bad (command @ ''-'') \<and>
           NewVersion (TrimPrefix bad (command @ ''-'')) = None \<and>
           isNewer w f namespace command versionStr = Return (False, Some (unparseable bad))"
proof -
  from isNewer_loop_unparseable[OF assms(3,4,5), of None] obtain bad where
    "(bad, False) \<in> set files" "HasPrefix bad (command @ ''-'')"
    "NewVersion (TrimPrefix bad (command @ ''-'')) = None"
    "isNewer_loop command files None = Inl (unparseable bad)"
    by blast
  moreover from this assms(1,2) have
    "isNewer w f namespace command versionStr = Return (False, Some (unparseable bad))"
    by (auto simp: isNewer_def)
  ultimately show ?thesis by blast
qed

text \<open>An instance: the links of \<open>foo-bar\<close>, seen while ranking versions of \<open>foo\<close>.\<close>

theorem isNewer_fails_on_links_of_foo_bar:
  "os_ReadDir example_world fs_foo_bar
     (Join [dotfilesPath example_world, of_string ''binr'', of_string ''myapp'']) =
     Inr [(''foo-bar'', False), (''foo-bar-v1.0.0'', False)] \<and>
   NewVersion ''bar'' = None \<and> NewVersion ''bar-v1.0.0'' = None \<and>
   (\<exists>bad. (bad = ''foo-bar'' \<or> bad = ''foo-bar-v1.0.0'') \<and>
      isNewer example_world fs_foo_bar ''myapp'' ''foo'' ''v1.0.0'' = Return (False, Some (unparseable bad)))"
proof -
  have 1: "NewVersion ''v1.0.0'' \<noteq> None" by code_simp
  have 2: "os_ReadDir example_world fs_foo_bar
     (Join [dotfilesPath example_world, of_string ''binr'', of_string ''myapp'']) =
     Inr [(''foo-bar'', False), (''foo-bar-v1.0.0'', False)]" by code_simp
  have 3: "(''foo-bar-v1.0.0'', False) \<in> set [(''foo-bar'', False), (''foo-bar-v1.0.0'', False)]"
    by simp
  have 4: "HasPrefix ''foo-bar-v1.0.0'' (''foo'' @ ''-'')" by code_simp
  have 5: "NewVersion (TrimPrefix ''foo-bar-v1.0.0'' (''foo'' @ ''-'')) = None" by code_simp
  have 6: "NewVersion ''bar'' = None" "NewVersion ''bar-v1.0.0'' = None" by code_simp+
  from isNewer_unparseable_entry[OF 1 2 3 4 5] 2 6 show ?thesis by auto
qed

text \<open>
  As stated this fails: with those links on disk \<open>link\<close> and \<open>Get\<close> for
  \<open>foo\<close> fail earlier, at \<open>os.Mkdir\<close>, with "file exists"; and the links of a
  command \<open>foo-1\<close> have suffixes that parse (\<open>1\<close> and \<open>1-v1.0.0\<close>), so
  \<open>isNewer\<close> for \<open>foo\<close> does not fail on them.
\<close>

theorem link_fails_before_isNewer:
  "fst (link example_world fs_foo_bar ''myapp'' ''foo'' ''v1.0.0'' ''h:B120'') =
     Return (Some (PathError ''mkdir'' (True, [''x'', ''binr'', ''myapp'']) EEXIST)) \<and>
   fst (Get later_world fs_foo_bar ''myapp'' ''foo'' ''v1.2.0'' (Some example_source) []) =
     Return ((True, [''x'', ''binr'', ''myapp'', ''foo-v1.2.0'']),
             Some (PathError ''mkdir'' (True, [''x'', ''binr'', ''myapp'']) EEXIST)) \<and>
   isNewer example_world fs_foo_1 ''myapp'' ''foo'' ''v1.0.0'' = Return (True, None)"
  by code_simp

subsection \<open>C10\<close>

text \<open>
  C10. Statement: \<open>isNewer\<close> dereferences a nil pointer when no entry of the
  namespace directory matches the prefix \<open><command>-\<close>; and since \<open>link\<close>
  creates the versioned link before it calls \<open>isNewer\<close>, a matching entry always
  exists and the panic cannot be reached from \<open>link\<close>.

  \<open>link\<close> reaches it. For the command \<open>./foo\<close> the link is made under the
  name \<open>foo-v1.0.0\<close>, which does not begin with \<open>./foo-\<close>. And \<open>link\<close>
  makes the link at the absolute path of \<open>Path\<close>, while \<open>isNewer\<close> lists
  the directory by a path that has not been made absolute: with
  \<open>XDG_CONFIG_HOME=../cfg\<close>, in a working directory \<open>/a/link\<close> that is a
  symbolic link to \<open>/b/d\<close>, the link of \<open>testbin\<close> is made in
  \<open>/a/cfg/binr/myapp\<close> and the listing is read from \<open>/b/cfg/binr/myapp\<close>,
  which is empty. In both cases no entry matches, \<open>highest\<close> is still nil
  after the loop, and \<open>link\<close> panics in \<open>isNewer\<close>; so does \<open>Get\<close>.
\<close>

theorem link_reaches_nil_dereference:
  "link example_world fs_base ''myapp'' ''./foo'' ''v1.0.0'' ''h:B120'' =
     (Panic, fs_base @
        [([''x'', ''binr'', ''myapp''], DirNode),
         ([''x'', ''binr'', ''myapp'', ''foo-v1.0.0''], LinkNode (False, [''..'', ''.cache'', ''h:B120'']))]) \<and>
   fst (Get example_world [] ''myapp'' ''./foo'' ''v1.2.0'' (Some example_source) []) = Panic \<and>
   Path linked_world ''myapp'' ''testbin'' ''v1.0.0'' =
     ((True, [''a'', ''cfg'', ''binr'', ''myapp'', ''testbin-v1.0.0'']), None) \<and>
   link linked_world fs_linked ''myapp'' ''testbin'' ''v1.0.0'' ''h:B100'' =
     (Panic, fs_linked @
        [([''a'', ''cfg'', ''binr'', ''myapp''], DirNode),
         ([''a'', ''cfg'', ''binr'', ''myapp'', ''testbin-v1.0.0''],
          LinkNode (False, [''..'', ''.cache'', ''h:B100'']))]) \<and>
   os_ReadDir linked_world
       (fs_linked @
        [([''a'', ''cfg'', ''binr'', ''myapp''], DirNode),
         ([''a'', ''cfg'', ''binr'', ''myapp'', ''testbin-v1.0.0''],
          LinkNode (False, [''..'', ''.cache'', ''h:B100'']))])
       (Join [dotfilesPath linked_world, of_string ''binr'', of_string ''myapp'']) = Inr [] \<and>
   fst (Get linked_world fs_linked ''myapp'' ''testbin'' ''v1.0.0'' (Some example_source) []) = Panic"
  by code_simp

text \<open>The versioned link has been made when \<open>link\<close> panics.\<close>

theorem versioned_link_exists_at_the_panic:
  "fst (link example_world fs_base ''myapp'' ''./foo'' ''v1.0.0'' ''h:B120'') = Panic \<and>
   map_of (snd (link example_world fs_base ''myapp'' ''./foo'' ''v1.0.0'' ''h:B120''))
     [''x'', ''binr'', ''myapp'', ''foo-v1.0.0''] = Some (LinkNode (False, [''..'', ''.cache'', ''h:B120''])) \<and>
   fst (link linked_world fs_linked ''myapp'' ''testbin'' ''v1.0.0'' ''h:B100'') = Panic \<and>
   map_of (snd (link linked_world fs_linked ''myapp'' ''testbin'' ''v1.0.0'' ''h:B100''))
     [''a'', ''cfg'', ''binr'', ''myapp'', ''testbin-v1.0.0''] =
     Some (LinkNode (False, [''..'', ''.cache'', ''h:B100'']))"
  using link_reaches_nil_dereference by (simp add: fs_base_def fs_linked_def)

end
